theory Spec2Isabelle
  imports Main "HOL-Library.Word"
begin

unbundle bit_operations_syntax

section \<open>KazSmartChain: the in-memory chain, mining and bridge core of \<^verbatim>\<open>app.py\<close>\<close>

text \<open>
  The development embeds the domain functions of class \<^verbatim>\<open>KazSmartChain\<close>
  (\<^verbatim>\<open>generate_genesis_block\<close>, \<^verbatim>\<open>calculate_hash\<close>, \<^verbatim>\<open>mine_block\<close>,
  \<^verbatim>\<open>deploy_smart_contract\<close>, \<^verbatim>\<open>upload_file_to_blockchain\<close>, \<^verbatim>\<open>bridge_asset\<close>
  and the confirmation display of \<^verbatim>\<open>render_bridge\<close>) as functions over an explicit
  session state. What Python reads from outside the program (the clock, \<^verbatim>\<open>uuid.uuid4\<close>,
  \<^verbatim>\<open>random.randint\<close>) is an environment of streams indexed by the number of readings made
  so far. A Python \<^verbatim>\<open>str\<close> is a \<^typ>\<open>string\<close> whose characters are the code points
  0..255; \<^verbatim>\<open>bytes\<close> are lists of \<^typ>\<open>char\<close>.
\<close>

subsection \<open>\<^verbatim>\<open>hashlib.sha256\<close>: SHA-256 on 32-bit words, wrap-around written out\<close>

text \<open>
  A 32-bit word is a natural number below \<open>2 ^ 32\<close>; addition is taken modulo \<open>2 ^ 32\<close>,
  rotation and shift are by division and remainder.
\<close>

definition add32 :: "nat \<Rightarrow> nat \<Rightarrow> nat" where
  "add32 a b = (a + b) mod 4294967296"

definition rotr :: "nat \<Rightarrow> nat \<Rightarrow> nat" where
  "rotr n x = (x div 2 ^ n) OR ((x mod 2 ^ n) * 2 ^ (32 - n))"

definition shr :: "nat \<Rightarrow> nat \<Rightarrow> nat" where
  "shr n x = x div 2 ^ n"

definition not32 :: "nat \<Rightarrow> nat" where
  "not32 x = 4294967295 - x"

definition ch :: "nat \<Rightarrow> nat \<Rightarrow> nat \<Rightarrow> nat" where
  "ch x y z = (x AND y) XOR (not32 x AND z)"

definition maj :: "nat \<Rightarrow> nat \<Rightarrow> nat \<Rightarrow> nat" where
  "maj x y z = (x AND y) XOR (x AND z) XOR (y AND z)"

definition bsig0 :: "nat \<Rightarrow> nat" where
  "bsig0 x = rotr 2 x XOR rotr 13 x XOR rotr 22 x"

definition bsig1 :: "nat \<Rightarrow> nat" where
  "bsig1 x = rotr 6 x XOR rotr 11 x XOR rotr 25 x"

definition ssig0 :: "nat \<Rightarrow> nat" where
  "ssig0 x = rotr 7 x XOR rotr 18 x XOR shr 3 x"

definition ssig1 :: "nat \<Rightarrow> nat" where
  "ssig1 x = rotr 17 x XOR rotr 19 x XOR shr 10 x"

text \<open>The round constants and the initial hash value, in decimal.\<close>

definition sha_k :: "nat list" where
  "sha_k =
    [1116352408, 1899447441, 3049323471, 3921009573, 961987163, 1508970993,
     2453635748, 2870763221, 3624381080, 310598401, 607225278, 1426881987,
     1925078388, 2162078206, 2614888103, 3248222580, 3835390401, 4022224774,
     264347078, 604807628, 770255983, 1249150122, 1555081692, 1996064986,
     2554220882, 2821834349, 2952996808, 3210313671, 3336571891, 3584528711,
     113926993, 338241895, 666307205, 773529912, 1294757372, 1396182291,
     1695183700, 1986661051, 2177026350, 2456956037, 2730485921, 2820302411,
     3259730800, 3345764771, 3516065817, 3600352804, 4094571909, 275423344,
     430227734, 506948616, 659060556, 883997877, 958139571, 1322822218,
     1537002063, 1747873779, 1955562222, 2024104815, 2227730452, 2361852424,
     2428436474, 2756734187, 3204031479, 3329325298]"

definition sha_h0 :: "nat list" where
  "sha_h0 =
    [1779033703, 3144134277, 1013904242, 2773480762, 1359893119, 2600822924,
     528734635, 1541459225]"

text \<open>
  Padding: the byte 128, zero bytes up to 56 modulo 64, and the bit length in eight
  bytes, most significant first.
\<close>

definition pad :: "char list \<Rightarrow> nat list" where
  "pad m = (let l = 8 * length m in
     map of_char m @ [128] @ replicate ((119 - length m mod 64) mod 64) 0 @
     map (\<lambda>s. l div 2 ^ s mod 256) [56, 48, 40, 32, 24, 16, 8, 0])"

fun words_of :: "nat list \<Rightarrow> nat list" where
  "words_of (a # b # c # d # r) = (((a * 256 + b) * 256 + c) * 256 + d) # words_of r"
| "words_of _ = []"

text \<open>
  The message schedule, most recent word first while it is built: each of the 48 new
  words is computed from the words 2, 7, 15 and 16 places back.
\<close>

fun sched_extend :: "nat \<Rightarrow> nat list \<Rightarrow> nat list" where
  "sched_extend 0 rs = rs"
| "sched_extend (Suc n) rs =
     sched_extend n (add32 (add32 (add32 (ssig1 (rs ! 1)) (rs ! 6)) (ssig0 (rs ! 14))) (rs ! 15) # rs)"

definition schedule :: "nat list \<Rightarrow> nat list" where
  "schedule blk = rev (sched_extend 48 (rev blk))"

fun round_step :: "nat list \<Rightarrow> nat \<times> nat \<Rightarrow> nat list" where
  "round_step [a, b, c, d, e, f, g, h] (k, w) =
     (let t1 = add32 (add32 (add32 (add32 h (bsig1 e)) (ch e f g)) k) w;
          t2 = add32 (bsig0 a) (maj a b c)
      in [add32 t1 t2, a, b, c, add32 d t1, e, f, g])"
| "round_step s _ = s"

definition compress :: "nat list \<Rightarrow> nat list \<Rightarrow> nat list" where
  "compress hs blk = map2 add32 hs (foldl round_step hs (zip sha_k (schedule blk)))"

fun chunks :: "nat list \<Rightarrow> nat list \<Rightarrow> nat list" where
  "chunks hs [] = hs"
| "chunks hs (w # ws) = chunks (compress hs (take 16 (w # ws))) (drop 16 (w # ws))"

definition sha256 :: "char list \<Rightarrow> nat list" where
  "sha256 m = chunks sha_h0 (words_of (pad m))"

definition hex_digit :: "nat \<Rightarrow> char" where
  "hex_digit n = ''0123456789abcdef'' ! n"

definition hex32 :: "nat \<Rightarrow> string" where
  "hex32 w = map (\<lambda>s. hex_digit (w div 2 ^ s mod 16)) [28, 24, 20, 16, 12, 8, 4, 0]"

definition hexdigest :: "nat list \<Rightarrow> string" where
  "hexdigest ws = concat (map hex32 ws)"

subsection \<open>Python strings: \<^verbatim>\<open>str.encode\<close>, \<^verbatim>\<open>str\<close> and \<^verbatim>\<open>repr\<close>\<close>

text \<open>\<^verbatim>\<open>s.encode()\<close> is UTF-8: a code point from 128 to 255 becomes two bytes.\<close>

definition encode :: "string \<Rightarrow> char list" where
  "encode s = concat (map (\<lambda>c.
     if (of_char c :: nat) < 128 then [c]
     else [char_of (192 + (of_char c :: nat) div 64), char_of (128 + (of_char c :: nat) mod 64)]) s)"

definition digit_char :: "nat \<Rightarrow> char" where
  "digit_char n = ''0123456789'' ! n"

function str_nat :: "nat \<Rightarrow> string" where
  "str_nat n = (if n < 10 then [digit_char n] else str_nat (n div 10) @ [digit_char (n mod 10)])"
  by pat_completeness auto
termination
  by (relation "measure id") auto

declare str_nat.simps [simp del]

definition str_int :: "int \<Rightarrow> string" where
  "str_int i = (if i < 0 then CHR ''-'' # str_nat (nat (- i)) else str_nat (nat i))"

text \<open>
  \<^verbatim>\<open>repr\<close> of a \<^verbatim>\<open>str\<close>: double quotes when the text has a single quote and no double
  quote, single quotes otherwise; the quote and the backslash are escaped, tab, newline
  and carriage return have their letters, and the other code points that are not
  printable are written \<^verbatim>\<open>\xNN\<close>.
\<close>

definition printable :: "char \<Rightarrow> bool" where
  "printable c = (let n = (of_char c :: nat) in
     (32 \<le> n \<and> n < 127) \<or> (161 \<le> n \<and> n \<noteq> 173))"

definition repr_char :: "char \<Rightarrow> char \<Rightarrow> string" where
  "repr_char q c =
     (if c = q \<or> c = CHR 0x5C then [CHR 0x5C, c]
      else if c = CHR 0x09 then [CHR 0x5C, CHR ''t'']
      else if c = CHR 0x0A then [CHR 0x5C, CHR ''n'']
      else if c = CHR 0x0D then [CHR 0x5C, CHR ''r'']
      else if printable c then [c]
      else [CHR 0x5C, CHR ''x'', hex_digit ((of_char c :: nat) div 16),
            hex_digit ((of_char c :: nat) mod 16)])"

definition repr_str :: "string \<Rightarrow> string" where
  "repr_str s =
     (let q = (if CHR 0x27 \<in> set s \<and> CHR 0x22 \<notin> set s then CHR 0x22 else CHR 0x27)
      in [q] @ concat (map (repr_char q) s) @ [q])"

text \<open>\<^verbatim>\<open>', '.join\<close> of the rendered items of a list or dict.\<close>

fun comma_join :: "string list \<Rightarrow> string" where
  "comma_join [] = []"
| "comma_join [x] = x"
| "comma_join (x # y # r) = x @ '', '' @ comma_join (y # r)"

definition calculate_hash :: "string \<Rightarrow> string" where
  "calculate_hash d = hexdigest (sha256 (encode d))"

text \<open>
  A value stored in a payload dict: an \<^verbatim>\<open>int\<close>, a \<^verbatim>\<open>str\<close>, or a \<^verbatim>\<open>float\<close>. Float
  formatting is not modelled: a float is carried by the text that \<^verbatim>\<open>repr\<close> gives for it.
\<close>

datatype pyval = PInt int | PStr string | PFloat string

fun repr_val :: "pyval \<Rightarrow> string" where
  "repr_val (PInt i) = str_int i"
| "repr_val (PStr s) = repr_str s"
| "repr_val (PFloat r) = r"

text \<open>\<^verbatim>\<open>repr\<close> of a dict whose values are already rendered, and of a list of rendered items.\<close>

definition repr_dict :: "(string \<times> string) list \<Rightarrow> string" where
  "repr_dict kvs = ''{'' @ comma_join (map (\<lambda>(k, v). repr_str k @ '': '' @ v) kvs) @ ''}''"

definition repr_list :: "string list \<Rightarrow> string" where
  "repr_list items = ''['' @ comma_join items @ '']''"

subsection \<open>\<^verbatim>\<open>datetime\<close>: \<^verbatim>\<open>isoformat()\<close> and \<^verbatim>\<open>str()\<close>\<close>

record datetime =
  year :: nat
  month :: nat
  day :: nat
  hour :: nat
  minute :: nat
  second :: nat
  microsecond :: nat

definition zfill :: "nat \<Rightarrow> string \<Rightarrow> string" where
  "zfill w s = replicate (w - length s) (CHR ''0'') @ s"

text \<open>The fraction is printed only when the microsecond field is not zero.\<close>

definition isoformat_sep :: "char \<Rightarrow> datetime \<Rightarrow> string" where
  "isoformat_sep sep d =
     zfill 4 (str_nat (year d)) @ ''-'' @ zfill 2 (str_nat (month d)) @ ''-'' @
     zfill 2 (str_nat (day d)) @ [sep] @ zfill 2 (str_nat (hour d)) @ '':'' @
     zfill 2 (str_nat (minute d)) @ '':'' @ zfill 2 (str_nat (second d)) @
     (if microsecond d = 0 then [] else ''.'' @ zfill 6 (str_nat (microsecond d)))"

definition isoformat :: "datetime \<Rightarrow> string" where
  "isoformat d = isoformat_sep (CHR ''T'') d"

definition str_datetime :: "datetime \<Rightarrow> string" where
  "str_datetime d = isoformat_sep (CHR '' '') d"

subsection \<open>Data classes\<close>

text \<open>
  Field names carry a prefix where two classes of the source share a name
  (\<^verbatim>\<open>Block.timestamp\<close> is \<open>b_timestamp\<close>, \<^verbatim>\<open>Transaction.timestamp\<close> is \<open>tx_timestamp\<close>).
\<close>

record transaction =
  tx_id :: string
  tx_type :: string
  from_address :: string
  to_address :: string
  tx_data :: "(string \<times> pyval) list"
  tx_timestamp :: string
  tx_blockchain :: string
  tx_status :: string
  gas_used :: int
  block_number :: nat

text \<open>
  \<^verbatim>\<open>asdict(tx)\<close> is a dict with the fields of the transaction in their declared order; a
  block keeps these dicts, modelled by the records themselves. \<open>repr_tx\<close> is what
  \<^verbatim>\<open>str\<close> prints for such a dict.
\<close>

definition repr_tx :: "transaction \<Rightarrow> string" where
  "repr_tx t = repr_dict
     [(''id'', repr_str (tx_id t)),
      (''type'', repr_str (tx_type t)),
      (''from_address'', repr_str (from_address t)),
      (''to_address'', repr_str (to_address t)),
      (''data'', repr_dict (map (\<lambda>(k, v). (k, repr_val v)) (tx_data t))),
      (''timestamp'', repr_str (tx_timestamp t)),
      (''blockchain'', repr_str (tx_blockchain t)),
      (''status'', repr_str (tx_status t)),
      (''gas_used'', str_int (gas_used t)),
      (''block_number'', str_nat (block_number t))]"

record block =
  b_index :: nat
  b_timestamp :: string
  b_transactions :: "transaction list"
  previous_hash :: string
  b_hash :: string
  nonce :: nat
  miner :: string

text \<open>An entry of the mock ABI: its name, its type, its inputs and its outputs.\<close>

record abi_entry =
  abi_name :: string
  abi_type :: string
  abi_inputs :: "(string \<times> string) list"
  abi_outputs :: "(string \<times> string) list"

record smart_contract =
  sc_address :: string
  sc_name :: string
  sc_blockchain :: string
  abi :: "abi_entry list"
  bytecode :: string
  deployed_at :: string
  sc_transactions :: int

record file_record =
  file_id :: string
  fr_name :: string
  fr_size :: nat
  fr_hash :: string
  ipfs_hash :: string
  fr_blockchain :: string
  tx_hash :: string
  fr_timestamp :: string
  owner :: string

text \<open>The dict that \<^verbatim>\<open>bridge_asset\<close> builds and returns.\<close>

record bridge_tx =
  br_id :: string
  asset :: string
  from_chain :: string
  to_chain :: string
  amount :: pyval
  br_status :: string
  br_timestamp :: string
  confirmations :: int
  required_confirmations :: int

record wallet =
  address :: string
  balance :: int
  w_transactions :: int

text \<open>
  An uploaded file is a file object: \<^verbatim>\<open>read()\<close> returns the bytes from the current
  position to the end and leaves the position at the end.
\<close>

record upload =
  up_name :: string
  up_content :: "char list"
  up_pos :: nat

definition file_read :: "upload \<Rightarrow> char list \<times> upload" where
  "file_read f = (drop (up_pos f) (up_content f),
                  f\<lparr>up_pos := max (up_pos f) (length (up_content f))\<rparr>)"

subsection \<open>The session state and what is read from outside\<close>

text \<open>
  \<^verbatim>\<open>st.session_state\<close>, with three counters: how many times the clock, \<^verbatim>\<open>uuid.uuid4\<close> and
  \<^verbatim>\<open>random.randint\<close> have been read.
\<close>

record session =
  blocks :: "string \<rightharpoonup> block list"
  transactions :: "transaction list"
  smart_contracts :: "smart_contract list"
  files :: "file_record list"
  current_chain :: string
  wallet :: wallet
  mining :: bool
  bridge_transfers :: "bridge_tx list"
  clock_reads :: nat
  uuid_draws :: nat
  rand_draws :: nat

text \<open>
  The environment: the value of the \<open>k\<close>-th \<^verbatim>\<open>datetime.now()\<close>, of the \<open>k\<close>-th
  \<^verbatim>\<open>str(uuid.uuid4())\<close> and of the \<open>k\<close>-th \<^verbatim>\<open>random.randint(a, b)\<close>.
\<close>

record env =
  now :: "nat \<Rightarrow> datetime"
  uuid4 :: "nat \<Rightarrow> string"
  randint :: "nat \<Rightarrow> int \<Rightarrow> int \<Rightarrow> int"

definition read_now :: "env \<Rightarrow> session \<Rightarrow> datetime \<times> session" where
  "read_now e s = (now e (clock_reads s), s\<lparr>clock_reads := clock_reads s + 1\<rparr>)"

definition draw_uuid :: "env \<Rightarrow> session \<Rightarrow> string \<times> session" where
  "draw_uuid e s = (uuid4 e (uuid_draws s), s\<lparr>uuid_draws := uuid_draws s + 1\<rparr>)"

definition draw_randint :: "env \<Rightarrow> int \<Rightarrow> int \<Rightarrow> session \<Rightarrow> int \<times> session" where
  "draw_randint e a b s = (randint e (rand_draws s) a b, s\<lparr>rand_draws := rand_draws s + 1\<rparr>)"

text \<open>
  A call returns a value, or raises; either way it leaves a session state. A call whose
  mining loop never ends has no outcome (\<open>None\<close>).
\<close>

datatype error = KeyError | IndexError

datatype 'a outcome = Returned 'a session | Raised error session

subsection \<open>The operations of \<^verbatim>\<open>KazSmartChain\<close>\<close>

definition generate_wallet :: "env \<Rightarrow> session \<Rightarrow> wallet \<times> session" where
  "generate_wallet e s =
     (let (u, s1) = draw_uuid e s
      in (\<lparr>address = ''0x'' @ take 40 (calculate_hash u), balance = 1000000,
           w_transactions = 0\<rparr>, s1))"

definition generate_genesis_block :: "env \<Rightarrow> string \<Rightarrow> session \<Rightarrow> block list \<times> session" where
  "generate_genesis_block e chain s =
     (let (t, s1) = read_now e s
      in ([\<lparr>b_index = 0, b_timestamp = isoformat t, b_transactions = [],
            previous_hash = ''0'', b_hash = calculate_hash (''Genesis Block '' @ chain),
            nonce = 0, miner = ''System''\<rparr>], s1))"

definition generate_ipfs_hash :: "env \<Rightarrow> session \<Rightarrow> string \<times> session" where
  "generate_ipfs_hash e s =
     (let (u, s1) = draw_uuid e s in (''Qm'' @ take 44 (calculate_hash u), s1))"

text \<open>
  \<^verbatim>\<open>init_session_state\<close> on a fresh session, where no key is present yet: the three
  genesis chains, the empty lists, the wallet.
\<close>

definition empty_session :: session where
  "empty_session =
     \<lparr>blocks = Map.empty, transactions = [], smart_contracts = [], files = [],
      current_chain = [], wallet = \<lparr>address = [], balance = 0, w_transactions = 0\<rparr>,
      mining = False, bridge_transfers = [], clock_reads = 0, uuid_draws = 0, rand_draws = 0\<rparr>"

definition init_session_state :: "env \<Rightarrow> session" where
  "init_session_state e =
     (let (besu, s1) = generate_genesis_block e ''besu'' empty_session;
          (fabric, s2) = generate_genesis_block e ''fabric'' s1;
          (corda, s3) = generate_genesis_block e ''corda'' s2;
          s4 = s3\<lparr>blocks := [''besu'' \<mapsto> besu, ''fabric'' \<mapsto> fabric, ''corda'' \<mapsto> corda],
                 transactions := [], smart_contracts := [], files := [],
                 current_chain := ''besu''\<rparr>;
          (w, s5) = generate_wallet e s4
      in s5\<lparr>wallet := w, mining := False, bridge_transfers := []\<rparr>)"

text \<open>The text that is hashed for a candidate nonce: the f-string of \<^verbatim>\<open>mine_block\<close>.\<close>

definition block_data :: "nat \<Rightarrow> string \<Rightarrow> transaction list \<Rightarrow> string \<Rightarrow> nat \<Rightarrow> string" where
  "block_data index timestamp txs prev n =
     str_nat index @ timestamp @ repr_list (map repr_tx txs) @ prev @ str_nat n"

text \<open>
  The \<^verbatim>\<open>while True\<close> loop of \<^verbatim>\<open>mine_block\<close>, entered with the current nonce. It has no
  bound: where no nonce from the current one on gives a digest that starts with
  \<^verbatim>\<open>0000\<close>, the loop does not return, and the value is \<open>None\<close>.
\<close>

partial_function (option) mine_loop ::
  "nat \<Rightarrow> string \<Rightarrow> transaction list \<Rightarrow> string \<Rightarrow> nat \<Rightarrow> (string \<times> nat) option" where
  "mine_loop index timestamp txs prev n =
     (let hash_value = calculate_hash (block_data index timestamp txs prev n)
      in if take 4 hash_value = ''0000'' then Some (hash_value, n)
         else mine_loop index timestamp txs prev (n + 1))"

text \<open>
  \<^verbatim>\<open>mine_block\<close>: \<^verbatim>\<open>blocks[chain]\<close> raises \<^verbatim>\<open>KeyError\<close> for an unknown chain and
  \<^verbatim>\<open>blocks[-1]\<close> raises \<^verbatim>\<open>IndexError\<close> on an empty chain; both before anything is changed.
\<close>

definition mine_block :: "env \<Rightarrow> string \<Rightarrow> transaction list \<Rightarrow> session \<Rightarrow> block outcome option" where
  "mine_block e chain txs s =
     (case blocks s chain of
        None \<Rightarrow> Some (Raised KeyError s)
      | Some bs \<Rightarrow>
          if bs = [] then Some (Raised IndexError s)
          else
            let previous_block = last bs;
                index = length bs;
                (t, s1) = read_now e s;
                timestamp = isoformat t
            in case mine_loop index timestamp txs (b_hash previous_block) 0 of
                 None \<Rightarrow> None
               | Some (hash_value, n) \<Rightarrow>
                   let new_block =
                         \<lparr>b_index = index, b_timestamp = timestamp, b_transactions = txs,
                          previous_hash = b_hash previous_block, b_hash = hash_value,
                          nonce = n, miner = take 10 (address (wallet s1)) @ ''...''\<rparr>
                   in Some (Returned new_block
                        (s1\<lparr>blocks := (blocks s1)(chain \<mapsto> bs @ [new_block])\<rparr>)))"

text \<open>The mock ABI of every deployed contract.\<close>

definition mock_abi :: "abi_entry list" where
  "mock_abi =
     [\<lparr>abi_name = ''constructor'', abi_type = ''function'', abi_inputs = [], abi_outputs = []\<rparr>,
      \<lparr>abi_name = ''transfer'', abi_type = ''function'',
       abi_inputs = [(''to'', ''address''), (''amount'', ''uint256'')],
       abi_outputs = [([], ''bool'')]\<rparr>]"

text \<open>
  \<^verbatim>\<open>deploy_smart_contract\<close>. There is no check of the chain: the contract is appended to
  \<^verbatim>\<open>smart_contracts\<close> first; \<^verbatim>\<open>len(blocks[chain])\<close> in the transaction's constructor
  raises \<^verbatim>\<open>KeyError\<close> for an unknown chain, after the contract was registered.
\<close>

definition deploy_smart_contract ::
  "env \<Rightarrow> string \<Rightarrow> string \<Rightarrow> string \<Rightarrow> session \<Rightarrow> smart_contract outcome option" where
  "deploy_smart_contract e name code chain s =
     (let (t1, s1) = read_now e s;
          contract_address = ''0x'' @ take 40 (calculate_hash (name @ str_datetime t1));
          bytecode = ''0x'' @ concat (replicate 10 (calculate_hash code));
          (t2, s2) = read_now e s1;
          contract = \<lparr>sc_address = contract_address, sc_name = name, sc_blockchain = chain,
                      abi = mock_abi, bytecode = take 100 bytecode @ ''...'',
                      deployed_at = isoformat t2, sc_transactions = 0\<rparr>;
          s3 = s2\<lparr>smart_contracts := smart_contracts s2 @ [contract]\<rparr>;
          (u, s4) = draw_uuid e s3;
          (t3, s5) = read_now e s4
      in case blocks s5 chain of
           None \<Rightarrow> Some (Raised KeyError s5)
         | Some bs \<Rightarrow>
             let tx = \<lparr>tx_id = ''0x'' @ take 64 (calculate_hash u),
                       tx_type = ''Contract Deployment'',
                       from_address = address (wallet s5),
                       to_address = contract_address,
                       tx_data = [(''contract'', PStr name), (''gas_limit'', PInt 3000000)],
                       tx_timestamp = isoformat t3, tx_blockchain = chain,
                       tx_status = ''Success'', gas_used = 2100000,
                       block_number = length bs\<rparr>;
                 s6 = s5\<lparr>transactions := transactions s5 @ [tx]\<rparr>
             in case mine_block e chain [tx] s6 of
                  None \<Rightarrow> None
                | Some (Raised err s7) \<Rightarrow> Some (Raised err s7)
                | Some (Returned b s7) \<Rightarrow> Some (Returned contract s7))"

text \<open>
  \<^verbatim>\<open>upload_file_to_blockchain\<close>; the file object comes back with its new position.
\<close>

definition upload_file_to_blockchain ::
  "env \<Rightarrow> upload \<Rightarrow> string \<Rightarrow> session \<Rightarrow> (file_record \<times> upload) outcome option" where
  "upload_file_to_blockchain e file chain s =
     (let (file_bytes, file1) = file_read file;
          file_hash = hexdigest (sha256 file_bytes);
          (ipfs, s1) = generate_ipfs_hash e s;
          (u1, s2) = draw_uuid e s1;
          (u2, s3) = draw_uuid e s2;
          (t1, s4) = read_now e s3;
          file_record = \<lparr>file_id = u1, fr_name = up_name file, fr_size = length file_bytes,
                         fr_hash = file_hash, ipfs_hash = ipfs, fr_blockchain = chain,
                         tx_hash = ''0x'' @ take 64 (calculate_hash u2),
                         fr_timestamp = isoformat t1, owner = address (wallet s4)\<rparr>;
          s5 = s4\<lparr>files := files s4 @ [file_record]\<rparr>;
          (t2, s6) = read_now e s5
      in case blocks s6 chain of
           None \<Rightarrow> Some (Raised KeyError s6)
         | Some bs \<Rightarrow>
             let tx = \<lparr>tx_id = tx_hash file_record, tx_type = ''File Upload'',
                       from_address = address (wallet s6),
                       to_address = ''0x0000000000000000000000000000000000000000'',
                       tx_data = [(''file_name'', PStr (up_name file)),
                                  (''file_hash'', PStr file_hash),
                                  (''ipfs_hash'', PStr ipfs),
                                  (''size'', PInt (int (length file_bytes)))],
                       tx_timestamp = isoformat t2, tx_blockchain = chain,
                       tx_status = ''Success'', gas_used = 50000,
                       block_number = length bs\<rparr>;
                 s7 = s6\<lparr>transactions := transactions s6 @ [tx]\<rparr>
             in case mine_block e chain [tx] s7 of
                  None \<Rightarrow> None
                | Some (Raised err s8) \<Rightarrow> Some (Raised err s8)
                | Some (Returned b s8) \<Rightarrow> Some (Returned (file_record, file1) s8))"

text \<open>
  \<^verbatim>\<open>bridge_asset\<close>. The two chains are not compared. The transfer dict is appended to
  \<^verbatim>\<open>bridge_transfers\<close> before the lock transaction is built.
\<close>

definition bridge_asset ::
  "env \<Rightarrow> string \<Rightarrow> string \<Rightarrow> string \<Rightarrow> pyval \<Rightarrow> session \<Rightarrow> bridge_tx outcome option" where
  "bridge_asset e asset_id from_c to_c amt s =
     (let (u1, s1) = draw_uuid e s;
          (t1, s2) = read_now e s1;
          bridge_tx = \<lparr>br_id = u1, asset = asset_id, from_chain = from_c, to_chain = to_c,
                       amount = amt, br_status = ''Processing'', br_timestamp = isoformat t1,
                       confirmations = 0, required_confirmations = 10\<rparr>;
          s3 = s2\<lparr>bridge_transfers := bridge_transfers s2 @ [bridge_tx]\<rparr>;
          (u2, s4) = draw_uuid e s3;
          (t2, s5) = read_now e s4
      in case blocks s5 from_c of
           None \<Rightarrow> Some (Raised KeyError s5)
         | Some bs \<Rightarrow>
             let lock_tx = \<lparr>tx_id = ''0x'' @ take 64 (calculate_hash u2),
                            tx_type = ''Bridge Lock'',
                            from_address = address (wallet s5),
                            to_address = ''0xBridge'' @ take 20 from_c,
                            tx_data = [(''asset'', PStr asset_id), (''amount'', amt),
                                       (''destination'', PStr to_c)],
                            tx_timestamp = isoformat t2, tx_blockchain = from_c,
                            tx_status = ''Success'', gas_used = 75000,
                            block_number = length bs\<rparr>;
                 s6 = s5\<lparr>transactions := transactions s5 @ [lock_tx]\<rparr>
             in case mine_block e from_c [lock_tx] s6 of
                  None \<Rightarrow> None
                | Some (Raised err s7) \<Rightarrow> Some (Raised err s7)
                | Some (Returned b s7) \<Rightarrow> Some (Returned bridge_tx s7))"

subsection \<open>What the pages do with the session\<close>

text \<open>The chain buttons of the sidebar assign \<^verbatim>\<open>current_chain\<close>.\<close>

definition select_chain :: "string \<Rightarrow> session \<Rightarrow> session" where
  "select_chain c s = s\<lparr>current_chain := c\<rparr>"

text \<open>
  The button \<^verbatim>\<open>Mine New Block\<close> of \<^verbatim>\<open>render_dashboard\<close>: a sample transfer on the
  current chain is recorded and mined.
\<close>

definition mine_new_block :: "env \<Rightarrow> session \<Rightarrow> block outcome option" where
  "mine_new_block e s =
     (case blocks s (current_chain s) of
        None \<Rightarrow> Some (Raised KeyError s)
      | Some bs \<Rightarrow>
          let (u1, s1) = draw_uuid e s;
              (u2, s2) = draw_uuid e s1;
              (r, s3) = draw_randint e 100 10000 s2;
              (t, s4) = read_now e s3;
              sample_tx = \<lparr>tx_id = ''0x'' @ take 64 (calculate_hash u1), tx_type = ''Transfer'',
                             from_address = address (wallet s4),
                             to_address = ''0x'' @ take 40 (calculate_hash u2),
                             tx_data = [(''amount'', PInt r), (''token'', PStr ''KZT'')],
                             tx_timestamp = isoformat t, tx_blockchain = current_chain s,
                             tx_status = ''Success'', gas_used = 21000,
                             block_number = length bs\<rparr>;
              s5 = s4\<lparr>transactions := transactions s4 @ [sample_tx]\<rparr>
          in mine_block e (current_chain s) [sample_tx] s5)"

text \<open>
  The list of active transfers of \<^verbatim>\<open>render_bridge\<close>: for each of the last three
  transfers a confirmation count and a label are computed for display, from the stored
  count and a random increment. Nothing is written back to the transfer.
\<close>

definition shown_confirmations :: "bridge_tx \<Rightarrow> int \<Rightarrow> int" where
  "shown_confirmations t r = min (confirmations t + r) (required_confirmations t)"

definition shown_status :: "bridge_tx \<Rightarrow> int \<Rightarrow> string" where
  "shown_status t r =
     (if shown_confirmations t r \<ge> required_confirmations t then ''Completed''
      else ''Processing'')"

fun render_transfers :: "env \<Rightarrow> bridge_tx list \<Rightarrow> session \<Rightarrow> (int \<times> string) list \<times> session" where
  "render_transfers e [] s = ([], s)"
| "render_transfers e (t # ts) s =
     (let (r, s1) = draw_randint e 1 3 s;
          (rows, s2) = render_transfers e ts s1
      in ((shown_confirmations t r, shown_status t r) # rows, s2))"

definition render_bridge :: "env \<Rightarrow> session \<Rightarrow> (int \<times> string) list \<times> session" where
  "render_bridge e s =
     render_transfers e (drop (length (bridge_transfers s) - 3) (bridge_transfers s)) s"

text \<open>
  The choices that the pages offer: the keys of \<^verbatim>\<open>self.networks\<close>, the target chains of the
  deployment page and the destination chains of the bridge page for a source chain.
\<close>

definition networks :: "string list" where
  "networks = [''besu'', ''fabric'', ''corda'']"

definition deploy_options :: "string list" where
  "deploy_options = [''besu'']"

definition dest_options :: "string \<Rightarrow> string list" where
  "dest_options source_chain = filter (\<lambda>c. c \<noteq> source_chain) networks"

subsection \<open>Sequences of operations\<close>

datatype operation =
    SelectChain string
  | MineNewBlock
  | MineBlock string "transaction list"
  | Deploy string string string
  | Upload upload string
  | Bridge string string string pyval
  | RenderBridge

text \<open>The session a call leaves behind, whether it returned or raised.\<close>

fun after :: "'a outcome \<Rightarrow> session" where
  "after (Returned x s) = s"
| "after (Raised err s) = s"

fun step :: "env \<Rightarrow> operation \<Rightarrow> session \<Rightarrow> session option" where
  "step e (SelectChain c) s = Some (select_chain c s)"
| "step e MineNewBlock s = map_option after (mine_new_block e s)"
| "step e (MineBlock chain txs) s = map_option after (mine_block e chain txs s)"
| "step e (Deploy name code chain) s = map_option after (deploy_smart_contract e name code chain s)"
| "step e (Upload file chain) s = map_option after (upload_file_to_blockchain e file chain s)"
| "step e (Bridge asset_id from_c to_c amt) s = map_option after (bridge_asset e asset_id from_c to_c amt s)"
| "step e RenderBridge s = Some (snd (render_bridge e s))"

fun run :: "env \<Rightarrow> operation list \<Rightarrow> session \<Rightarrow> session option" where
  "run e [] s = Some s"
| "run e (x # xs) s = (case step e x s of None \<Rightarrow> None | Some s' \<Rightarrow> run e xs s')"

text \<open>The sessions a run goes through, the first one included.\<close>

fun trace :: "env \<Rightarrow> operation list \<Rightarrow> session \<Rightarrow> session list option" where
  "trace e [] s = Some [s]"
| "trace e (x # xs) s =
     (case step e x s of
        None \<Rightarrow> None
      | Some s' \<Rightarrow> (case trace e xs s' of None \<Rightarrow> None | Some ss \<Rightarrow> Some (s # ss)))"

subsection \<open>The properties\<close>

text \<open>Hash linkage and numbering of a chain.\<close>

definition chain_linked :: "block list \<Rightarrow> bool" where
  "chain_linked bs \<longleftrightarrow>
     bs \<noteq> [] \<and> b_index (bs ! 0) = 0 \<and> previous_hash (bs ! 0) = ''0'' \<and>
     (\<forall>i \<in> {1..<length bs}. previous_hash (bs ! i) = b_hash (bs ! (i - 1)) \<and> b_index (bs ! i) = i)"

definition chains_linked :: "session \<Rightarrow> bool" where
  "chains_linked s \<longleftrightarrow> (\<forall>c bs. blocks s c = Some bs \<longrightarrow> chain_linked bs)"

text \<open>The difficulty test of \<^verbatim>\<open>mine_block\<close>, and the digest recomputed from a block's fields.\<close>

definition meets_difficulty :: "string \<Rightarrow> bool" where
  "meets_difficulty h \<longleftrightarrow> take 4 h = ''0000''"

definition recomputed_hash :: "block \<Rightarrow> string" where
  "recomputed_hash b =
     calculate_hash (block_data (b_index b) (b_timestamp b) (b_transactions b)
       (previous_hash b) (nonce b))"

definition proof_of_work :: "block \<Rightarrow> bool" where
  "proof_of_work b \<longleftrightarrow> b_hash b = recomputed_hash b \<and> meets_difficulty (b_hash b)"

text \<open>
  What holds of the chain of network \<open>c\<close>: its first block carries the digest of the text
  \<^verbatim>\<open>Genesis Block \<close> followed by the network's key, and every later block carries the
  digest of its own fields, which meets the difficulty.
\<close>

definition chain_proved :: "string \<Rightarrow> block list \<Rightarrow> bool" where
  "chain_proved c bs \<longleftrightarrow>
     bs \<noteq> [] \<and> b_hash (bs ! 0) = calculate_hash (''Genesis Block '' @ c) \<and>
     (\<forall>i \<in> {1..<length bs}. proof_of_work (bs ! i))"

definition chains_proved :: "session \<Rightarrow> bool" where
  "chains_proved s \<longleftrightarrow> (\<forall>c bs. blocks s c = Some bs \<longrightarrow> chain_proved c bs)"

text \<open>A nonce that the loop of \<^verbatim>\<open>mine_block\<close> accepts for the given inputs.\<close>

definition valid_nonce :: "nat \<Rightarrow> string \<Rightarrow> transaction list \<Rightarrow> string \<Rightarrow> nat \<Rightarrow> bool" where
  "valid_nonce index timestamp txs prev n \<longleftrightarrow>
     meets_difficulty (calculate_hash (block_data index timestamp txs prev n))"









text \<open>
  An operation leaves the wallet as it is, never lowers the number of identifiers drawn,
  and leaves the transfers as they are or appends one transfer that is pending.
\<close>

definition kept :: "session \<Rightarrow> session \<Rightarrow> bool" where
  "kept s s' \<longleftrightarrow>
     wallet s' = wallet s \<and> uuid_draws s \<le> uuid_draws s' \<and>
     (bridge_transfers s' = bridge_transfers s \<or>
      (\<exists>t. bridge_transfers s' = bridge_transfers s @ [t] \<and> confirmations t = 0 \<and>
           required_confirmations t = 10 \<and> br_status t = ''Processing''))"

text \<open>What a call gave: the value it returned, the error it raised, the session it left.\<close>

fun returned :: "'a outcome option \<Rightarrow> 'a option" where
  "returned (Some (Returned x s)) = Some x"
| "returned _ = None"

fun raised :: "'a outcome option \<Rightarrow> error option" where
  "raised (Some (Raised err s)) = Some err"
| "raised _ = None"

fun left :: "'a outcome option \<Rightarrow> session option" where
  "left (Some r) = Some (after r)"
| "left None = None"

subsection \<open>A concrete environment and concrete calls\<close>

text \<open>
  A clock that reads 2025-01-15 10:30 with the number of the reading as seconds, a table
  of identifiers for \<^verbatim>\<open>uuid4\<close>, and a \<^verbatim>\<open>randint\<close> that always gives its lower bound.
\<close>

definition clock0 :: "nat \<Rightarrow> datetime" where
  "clock0 k =
     \<lparr>year = 2025, month = 1, day = 15, hour = 10, minute = 30, second = k mod 60,
      microsecond = (if k < 9 then [120001, 120002, 120003, 2293, 450210, 89052, 165094, 733001, 43700] ! k else 0)\<rparr>"

definition uuids0 :: "string list" where
  "uuids0 =
     [''3f2b8c1e-5d4a-4e6f-9a7b-1c2d3e4f5a6b'',
      ''7a1d9e33-0b52-4c18-8f60-2e9a4b7c1d05'',
      ''c4e81f27-6a90-4d3b-b125-9f0e7d6c5b4a'',
      ''b8d2e6f1-3a4c-4b5d-9e70-000000004572'',
      ''0d6f2a9b-8c17-4e5d-a3f4-6b1c0e9d8f72'',
      ''91b7c3d5-2e4f-4a60-8b9c-d0e1f2a3b4c5'',
      ''e5a4d3c2-b1f0-4987-a654-3c2b1a0f9e8d'']"

definition env0 :: env where
  "env0 = \<lparr>now = clock0,
           uuid4 = (\<lambda>k. if k < 7 then uuids0 ! k else ''00000000-0000-4000-8000-000000000000''),
           randint = (\<lambda>k a b. a)\<rparr>"

definition session0 :: session where
  "session0 = init_session_state env0"

text \<open>Mining an empty transaction list on the EVM chain of the fresh session.\<close>

definition mined0 :: "block outcome option" where
  "mined0 = mine_block env0 ''besu'' [] session0"

text \<open>The same call in a session that differs in its wallet and its current chain.\<close>

definition session0' :: session where
  "session0' = session0\<lparr>current_chain := ''corda'',
     wallet := \<lparr>address = ''0x00000000000000000000000000000000deadbeef'', balance = 5,
                w_transactions = 0\<rparr>\<rparr>"

definition mined0' :: "block outcome option" where
  "mined0' = mine_block env0 ''besu'' [] session0'"

text \<open>A bridge transfer of 100 from the EVM chain to the permissioned chain.\<close>

definition bridged0 :: "bridge_tx outcome option" where
  "bridged0 = bridge_asset env0 ''KZT_100'' ''besu'' ''fabric'' (PInt 100) session0"

text \<open>A bridge transfer whose source and destination are the same chain.\<close>

definition bridged_same :: "bridge_tx outcome option" where
  "bridged_same = bridge_asset env0 ''NFT-72961'' ''besu'' ''besu'' (PInt 1) session0"

text \<open>A deployment on the permissioned chain.\<close>

definition deployed_fabric :: "smart_contract outcome option" where
  "deployed_fabric =
     deploy_smart_contract env0 ''Token'' ''contract Token {}'' ''fabric'' session0"

text \<open>The same five bytes anchored twice, on two chains.\<close>

definition hello :: upload where
  "hello = \<lparr>up_name = ''hello.txt'', up_content = ''hello'', up_pos = 0\<rparr>"

definition uploaded1 :: "(file_record \<times> upload) outcome option" where
  "uploaded1 = upload_file_to_blockchain env0 hello ''besu'' session0"

definition uploaded2 :: "(file_record \<times> upload) outcome option" where
  "uploaded2 = upload_file_to_blockchain env0 hello ''fabric'' (the (left uploaded1))"

text \<open>
  An environment whose \<^verbatim>\<open>uuid4\<close> gives the same identifier at every draw, and the same
  five bytes anchored twice in it, under two file names, on two chains.
\<close>

definition env1 :: env where
  "env1 = \<lparr>now = clock0, uuid4 = (\<lambda>k. uuids0 ! 0), randint = (\<lambda>k a b. a)\<rparr>"

definition copy_a :: upload where
  "copy_a = \<lparr>up_name = ''copy-97825.txt'', up_content = ''hello'', up_pos = 0\<rparr>"

definition copy_b :: upload where
  "copy_b = \<lparr>up_name = ''copy-14011.txt'', up_content = ''hello'', up_pos = 0\<rparr>"

definition anchored_a :: "(file_record \<times> upload) outcome option" where
  "anchored_a = upload_file_to_blockchain env1 copy_a ''besu'' (init_session_state env1)"

definition anchored_b :: "(file_record \<times> upload) outcome option" where
  "anchored_b = upload_file_to_blockchain env1 copy_b ''fabric'' (the (left anchored_a))"

subsection \<open>The values of the concrete calls\<close>

text \<open>The genesis block of the EVM chain in the fresh session.\<close>

definition genesis_besu :: block where
  "genesis_besu =
     \<lparr>b_index = 0, b_timestamp = ''2025-01-15T10:30:00.120001'', b_transactions = [],
      previous_hash = ''0'',
      b_hash = ''98916f6738b4eea5d839caca617eca5962ec2c8009f785fdcd0d04d18471f002'',
      nonce = 0, miner = ''System''\<rparr>"

text \<open>The block that \<open>mined0\<close> returns, and the session it leaves.\<close>

definition block1 :: block where
  "block1 =
     \<lparr>b_index = 1, b_timestamp = ''2025-01-15T10:30:03.002293'', b_transactions = [],
      previous_hash = ''98916f6738b4eea5d839caca617eca5962ec2c8009f785fdcd0d04d18471f002'',
      b_hash = ''0000c5664337ceeb7ec373ef74ff21b983575047dfc1eaf003d20b9d6e85cd58'',
      nonce = 2, miner = ''0x3f60c6d5...''\<rparr>"

definition session1 :: session where
  "session1 =
     session0\<lparr>clock_reads := 4,
       blocks := (blocks session0)(''besu'' \<mapsto> the (blocks session0 ''besu'') @ [block1])\<rparr>"

text \<open>The block that \<open>mined0'\<close> returns, and the session it leaves.\<close>

definition block1' :: block where
  "block1' =
     \<lparr>b_index = 1, b_timestamp = ''2025-01-15T10:30:03.002293'', b_transactions = [],
      previous_hash = ''98916f6738b4eea5d839caca617eca5962ec2c8009f785fdcd0d04d18471f002'',
      b_hash = ''0000c5664337ceeb7ec373ef74ff21b983575047dfc1eaf003d20b9d6e85cd58'',
      nonce = 2, miner = ''0x00000000...''\<rparr>"

definition session1' :: session where
  "session1' =
     session0'\<lparr>clock_reads := 4,
       blocks := (blocks session0')(''besu'' \<mapsto> the (blocks session0' ''besu'') @ [block1'])\<rparr>"

text \<open>The transfer that \<open>bridged0\<close> returns, its lock transaction, the block mined for it and the session it leaves.\<close>

definition transfer0 :: bridge_tx where
  "transfer0 =
     \<lparr>br_id = ''7a1d9e33-0b52-4c18-8f60-2e9a4b7c1d05'', asset = ''KZT_100'', from_chain = ''besu'',
      to_chain = ''fabric'', amount = PInt 100, br_status = ''Processing'',
      br_timestamp = ''2025-01-15T10:30:03.002293'', confirmations = 0, required_confirmations = 10\<rparr>"

definition lock_tx0 :: transaction where
  "lock_tx0 =
     \<lparr>tx_id = ''0x88140c6203bc39bb6fead3823d5a69becfece9dfece39503dd6eaa29956d1cf8'',
      tx_type = ''Bridge Lock'', from_address = ''0x3f60c6d52d2ee1fcdec8d315e543582f79a39c97'',
      to_address = ''0xBridgebesu'',
      tx_data = [(''asset'', PStr ''KZT_100''), (''amount'', PInt 100), (''destination'', PStr ''fabric'')],
      tx_timestamp = ''2025-01-15T10:30:04.450210'', tx_blockchain = ''besu'', tx_status = ''Success'',
      gas_used = 75000, block_number = 1\<rparr>"

definition block_bridged0 :: block where
  "block_bridged0 =
     \<lparr>b_index = 1, b_timestamp = ''2025-01-15T10:30:05.089052'', b_transactions = [lock_tx0],
      previous_hash = ''98916f6738b4eea5d839caca617eca5962ec2c8009f785fdcd0d04d18471f002'',
      b_hash = ''0000f3da64c582260bf3ce60521729234be1b44f44dedaef826318a22d13502b'',
      nonce = 0, miner = ''0x3f60c6d5...''\<rparr>"

definition session_bridged0 :: session where
  "session_bridged0 =
     session0\<lparr>clock_reads := 6,
       uuid_draws := 3,
       bridge_transfers := [transfer0],
       transactions := [lock_tx0],
       blocks := (blocks session0)(''besu'' \<mapsto> the (blocks session0 ''besu'') @ [block_bridged0])\<rparr>"

text \<open>The same for \<open>bridged_same\<close>.\<close>

definition transfer_same :: bridge_tx where
  "transfer_same =
     \<lparr>br_id = ''7a1d9e33-0b52-4c18-8f60-2e9a4b7c1d05'', asset = ''NFT-72961'', from_chain = ''besu'',
      to_chain = ''besu'', amount = PInt 1, br_status = ''Processing'',
      br_timestamp = ''2025-01-15T10:30:03.002293'', confirmations = 0, required_confirmations = 10\<rparr>"

definition lock_tx_same :: transaction where
  "lock_tx_same =
     \<lparr>tx_id = ''0x88140c6203bc39bb6fead3823d5a69becfece9dfece39503dd6eaa29956d1cf8'',
      tx_type = ''Bridge Lock'', from_address = ''0x3f60c6d52d2ee1fcdec8d315e543582f79a39c97'',
      to_address = ''0xBridgebesu'',
      tx_data = [(''asset'', PStr ''NFT-72961''), (''amount'', PInt 1), (''destination'', PStr ''besu'')],
      tx_timestamp = ''2025-01-15T10:30:04.450210'', tx_blockchain = ''besu'', tx_status = ''Success'',
      gas_used = 75000, block_number = 1\<rparr>"

definition block_bridged_same :: block where
  "block_bridged_same =
     \<lparr>b_index = 1, b_timestamp = ''2025-01-15T10:30:05.089052'', b_transactions = [lock_tx_same],
      previous_hash = ''98916f6738b4eea5d839caca617eca5962ec2c8009f785fdcd0d04d18471f002'',
      b_hash = ''00008eb061bfee43047e6dcb227496f800c66cfb5f40a0e18397df0f150e50eb'',
      nonce = 0, miner = ''0x3f60c6d5...''\<rparr>"

definition session_bridged_same :: session where
  "session_bridged_same =
     session0\<lparr>clock_reads := 6,
       uuid_draws := 3,
       bridge_transfers := [transfer_same],
       transactions := [lock_tx_same],
       blocks := (blocks session0)(''besu'' \<mapsto> the (blocks session0 ''besu'') @ [block_bridged_same])\<rparr>"

text \<open>The contract that \<open>deployed_fabric\<close> returns, its transaction, the block mined for it and the session it leaves.\<close>

definition contract_fabric :: smart_contract where
  "contract_fabric =
     \<lparr>sc_address = ''0xa248b7bbc2670f67a0ff96afb1e2c8894d9244fb'', sc_name = ''Token'',
      sc_blockchain = ''fabric'', abi = mock_abi,
      bytecode = ''0xcf20d838d6c45ab6b824a3566aa01856466942d568517075520be70aaccd2b8acf20d838d6c45ab6b824a3566aa0185646...'',
      deployed_at = ''2025-01-15T10:30:04.450210'', sc_transactions = 0\<rparr>"

definition deploy_tx :: transaction where
  "deploy_tx =
     \<lparr>tx_id = ''0x63f63b508ff053ca71d21d30775fa39e41ea9d22ba592c3c98b16fcc00f0aa94'',
      tx_type = ''Contract Deployment'', from_address = ''0x3f60c6d52d2ee1fcdec8d315e543582f79a39c97'',
      to_address = ''0xa248b7bbc2670f67a0ff96afb1e2c8894d9244fb'',
      tx_data = [(''contract'', PStr ''Token''), (''gas_limit'', PInt 3000000)],
      tx_timestamp = ''2025-01-15T10:30:05.089052'', tx_blockchain = ''fabric'', tx_status = ''Success'',
      gas_used = 2100000, block_number = 1\<rparr>"

definition block_deployed :: block where
  "block_deployed =
     \<lparr>b_index = 1, b_timestamp = ''2025-01-15T10:30:06.165094'', b_transactions = [deploy_tx],
      previous_hash = ''fa95d9f08696ef76d6e7a22021c10c4ec0e41a4ea53e025abb9238043a6b2294'',
      b_hash = ''00002dd241548e9f79d746e17e7b550bcb5e59d7062be542a9f606d775a04330'',
      nonce = 0, miner = ''0x3f60c6d5...''\<rparr>"

definition session_deployed :: session where
  "session_deployed =
     session0\<lparr>clock_reads := 7,
       uuid_draws := 2,
       smart_contracts := [contract_fabric],
       transactions := [deploy_tx],
       blocks := (blocks session0)(''fabric'' \<mapsto> the (blocks session0 ''fabric'') @ [block_deployed])\<rparr>"

text \<open>The file object after it was read.\<close>

definition hello_read :: upload where
  "hello_read =
     \<lparr>up_name = ''hello.txt'', up_content = ''hello'', up_pos = 5\<rparr>"

text \<open>The record that \<open>uploaded1\<close> returns, its transaction, the block mined for it and the session it leaves.\<close>

definition file_record1 :: file_record where
  "file_record1 =
     \<lparr>file_id = ''c4e81f27-6a90-4d3b-b125-9f0e7d6c5b4a'', fr_name = ''hello.txt'', fr_size = 5,
      fr_hash = ''2cf24dba5fb0a30e26e83b2ac5b9e29e1b161e5c1fa7425e73043362938b9824'',
      ipfs_hash = ''Qm63f63b508ff053ca71d21d30775fa39e41ea9d22ba59'', fr_blockchain = ''besu'',
      tx_hash = ''0xbee220bcdc281ce1a3e4c8b0f49f9fa35b90bc3d172ec1f3d2ddec89d5433672'',
      fr_timestamp = ''2025-01-15T10:30:03.002293'',
      owner = ''0x3f60c6d52d2ee1fcdec8d315e543582f79a39c97''\<rparr>"

definition upload_tx1 :: transaction where
  "upload_tx1 =
     \<lparr>tx_id = ''0xbee220bcdc281ce1a3e4c8b0f49f9fa35b90bc3d172ec1f3d2ddec89d5433672'',
      tx_type = ''File Upload'', from_address = ''0x3f60c6d52d2ee1fcdec8d315e543582f79a39c97'',
      to_address = ''0x0000000000000000000000000000000000000000'',
      tx_data = [(''file_name'', PStr ''hello.txt''),
         (''file_hash'', PStr ''2cf24dba5fb0a30e26e83b2ac5b9e29e1b161e5c1fa7425e73043362938b9824''),
         (''ipfs_hash'', PStr ''Qm63f63b508ff053ca71d21d30775fa39e41ea9d22ba59''), (''size'', PInt 5)],
      tx_timestamp = ''2025-01-15T10:30:04.450210'', tx_blockchain = ''besu'', tx_status = ''Success'',
      gas_used = 50000, block_number = 1\<rparr>"

definition block_uploaded1 :: block where
  "block_uploaded1 =
     \<lparr>b_index = 1, b_timestamp = ''2025-01-15T10:30:05.089052'', b_transactions = [upload_tx1],
      previous_hash = ''98916f6738b4eea5d839caca617eca5962ec2c8009f785fdcd0d04d18471f002'',
      b_hash = ''0000a22e4f5f29210d63aaf5188550aa3c7b2c238d6c352ee84f48ee942df237'',
      nonce = 0, miner = ''0x3f60c6d5...''\<rparr>"

definition session_uploaded1 :: session where
  "session_uploaded1 =
     session0\<lparr>clock_reads := 6,
       uuid_draws := 4,
       files := [file_record1],
       transactions := [upload_tx1],
       blocks := (blocks session0)(''besu'' \<mapsto> the (blocks session0 ''besu'') @ [block_uploaded1])\<rparr>"

text \<open>The same for \<open>uploaded2\<close>.\<close>

definition file_record2 :: file_record where
  "file_record2 =
     \<lparr>file_id = ''91b7c3d5-2e4f-4a60-8b9c-d0e1f2a3b4c5'', fr_name = ''hello.txt'', fr_size = 5,
      fr_hash = ''2cf24dba5fb0a30e26e83b2ac5b9e29e1b161e5c1fa7425e73043362938b9824'',
      ipfs_hash = ''Qmb0588ba4f484795f41f50f2965b6115d0367fdcf326d'', fr_blockchain = ''fabric'',
      tx_hash = ''0xa9ad617b2462f84770f8e4c704013dca7c8bee9adb34e63f97d9981a088db106'',
      fr_timestamp = ''2025-01-15T10:30:06.165094'',
      owner = ''0x3f60c6d52d2ee1fcdec8d315e543582f79a39c97''\<rparr>"

definition upload_tx2 :: transaction where
  "upload_tx2 =
     \<lparr>tx_id = ''0xa9ad617b2462f84770f8e4c704013dca7c8bee9adb34e63f97d9981a088db106'',
      tx_type = ''File Upload'', from_address = ''0x3f60c6d52d2ee1fcdec8d315e543582f79a39c97'',
      to_address = ''0x0000000000000000000000000000000000000000'',
      tx_data = [(''file_name'', PStr ''hello.txt''),
         (''file_hash'', PStr ''2cf24dba5fb0a30e26e83b2ac5b9e29e1b161e5c1fa7425e73043362938b9824''),
         (''ipfs_hash'', PStr ''Qmb0588ba4f484795f41f50f2965b6115d0367fdcf326d''), (''size'', PInt 5)],
      tx_timestamp = ''2025-01-15T10:30:07.733001'', tx_blockchain = ''fabric'', tx_status = ''Success'',
      gas_used = 50000, block_number = 1\<rparr>"

definition block_uploaded2 :: block where
  "block_uploaded2 =
     \<lparr>b_index = 1, b_timestamp = ''2025-01-15T10:30:08.043700'', b_transactions = [upload_tx2],
      previous_hash = ''fa95d9f08696ef76d6e7a22021c10c4ec0e41a4ea53e025abb9238043a6b2294'',
      b_hash = ''00001cb152598120de6f303a83ea6c7eaa493f9bdd438d2aabdea83e22686e42'',
      nonce = 0, miner = ''0x3f60c6d5...''\<rparr>"

definition session_uploaded2 :: session where
  "session_uploaded2 =
     session_uploaded1\<lparr>clock_reads := 9,
       uuid_draws := 7,
       files := [file_record1, file_record2],
       transactions := [upload_tx1, upload_tx2],
       blocks := (blocks session_uploaded1)(''fabric'' \<mapsto> the (blocks session_uploaded1 ''fabric'') @ [block_uploaded2])\<rparr>"

text \<open>The two records that \<open>anchored_a\<close> and \<open>anchored_b\<close> return, with the file objects after they were read, the transactions, the blocks mined and the sessions left.\<close>

definition copy_a_read :: upload where
  "copy_a_read =
     \<lparr>up_name = ''copy-97825.txt'', up_content = ''hello'', up_pos = 5\<rparr>"

definition copy_b_read :: upload where
  "copy_b_read =
     \<lparr>up_name = ''copy-14011.txt'', up_content = ''hello'', up_pos = 5\<rparr>"

definition file_record_a :: file_record where
  "file_record_a =
     \<lparr>file_id = ''3f2b8c1e-5d4a-4e6f-9a7b-1c2d3e4f5a6b'', fr_name = ''copy-97825.txt'', fr_size = 5,
      fr_hash = ''2cf24dba5fb0a30e26e83b2ac5b9e29e1b161e5c1fa7425e73043362938b9824'',
      ipfs_hash = ''Qm3f60c6d52d2ee1fcdec8d315e543582f79a39c97dcfb'', fr_blockchain = ''besu'',
      tx_hash = ''0x3f60c6d52d2ee1fcdec8d315e543582f79a39c97dcfb651fa4cc0f1bf6129f82'',
      fr_timestamp = ''2025-01-15T10:30:03.002293'',
      owner = ''0x3f60c6d52d2ee1fcdec8d315e543582f79a39c97''\<rparr>"

definition upload_tx_a :: transaction where
  "upload_tx_a =
     \<lparr>tx_id = ''0x3f60c6d52d2ee1fcdec8d315e543582f79a39c97dcfb651fa4cc0f1bf6129f82'',
      tx_type = ''File Upload'', from_address = ''0x3f60c6d52d2ee1fcdec8d315e543582f79a39c97'',
      to_address = ''0x0000000000000000000000000000000000000000'',
      tx_data = [(''file_name'', PStr ''copy-97825.txt''),
         (''file_hash'', PStr ''2cf24dba5fb0a30e26e83b2ac5b9e29e1b161e5c1fa7425e73043362938b9824''),
         (''ipfs_hash'', PStr ''Qm3f60c6d52d2ee1fcdec8d315e543582f79a39c97dcfb''), (''size'', PInt 5)],
      tx_timestamp = ''2025-01-15T10:30:04.450210'', tx_blockchain = ''besu'', tx_status = ''Success'',
      gas_used = 50000, block_number = 1\<rparr>"

definition block_anchored_a :: block where
  "block_anchored_a =
     \<lparr>b_index = 1, b_timestamp = ''2025-01-15T10:30:05.089052'', b_transactions = [upload_tx_a],
      previous_hash = ''98916f6738b4eea5d839caca617eca5962ec2c8009f785fdcd0d04d18471f002'',
      b_hash = ''0000255b7e73af57967668cb2ed5d989b87c75d1596c727f9ce74015174d3eeb'',
      nonce = 0, miner = ''0x3f60c6d5...''\<rparr>"

definition session_anchored_a :: session where
  "session_anchored_a =
     session0\<lparr>clock_reads := 6,
       uuid_draws := 4,
       files := [file_record_a],
       transactions := [upload_tx_a],
       blocks := (blocks session0)(''besu'' \<mapsto> the (blocks session0 ''besu'') @ [block_anchored_a])\<rparr>"

definition file_record_b :: file_record where
  "file_record_b =
     \<lparr>file_id = ''3f2b8c1e-5d4a-4e6f-9a7b-1c2d3e4f5a6b'', fr_name = ''copy-14011.txt'', fr_size = 5,
      fr_hash = ''2cf24dba5fb0a30e26e83b2ac5b9e29e1b161e5c1fa7425e73043362938b9824'',
      ipfs_hash = ''Qm3f60c6d52d2ee1fcdec8d315e543582f79a39c97dcfb'', fr_blockchain = ''fabric'',
      tx_hash = ''0x3f60c6d52d2ee1fcdec8d315e543582f79a39c97dcfb651fa4cc0f1bf6129f82'',
      fr_timestamp = ''2025-01-15T10:30:06.165094'',
      owner = ''0x3f60c6d52d2ee1fcdec8d315e543582f79a39c97''\<rparr>"

definition upload_tx_b :: transaction where
  "upload_tx_b =
     \<lparr>tx_id = ''0x3f60c6d52d2ee1fcdec8d315e543582f79a39c97dcfb651fa4cc0f1bf6129f82'',
      tx_type = ''File Upload'', from_address = ''0x3f60c6d52d2ee1fcdec8d315e543582f79a39c97'',
      to_address = ''0x0000000000000000000000000000000000000000'',
      tx_data = [(''file_name'', PStr ''copy-14011.txt''),
         (''file_hash'', PStr ''2cf24dba5fb0a30e26e83b2ac5b9e29e1b161e5c1fa7425e73043362938b9824''),
         (''ipfs_hash'', PStr ''Qm3f60c6d52d2ee1fcdec8d315e543582f79a39c97dcfb''), (''size'', PInt 5)],
      tx_timestamp = ''2025-01-15T10:30:07.733001'', tx_blockchain = ''fabric'', tx_status = ''Success'',
      gas_used = 50000, block_number = 1\<rparr>"

definition block_anchored_b :: block where
  "block_anchored_b =
     \<lparr>b_index = 1, b_timestamp = ''2025-01-15T10:30:08.043700'', b_transactions = [upload_tx_b],
      previous_hash = ''fa95d9f08696ef76d6e7a22021c10c4ec0e41a4ea53e025abb9238043a6b2294'',
      b_hash = ''0000464db811e5a073d42842cd33f42d0af34be3aeb123470c7053ec4104baff'',
      nonce = 0, miner = ''0x3f60c6d5...''\<rparr>"

definition session_anchored_b :: session where
  "session_anchored_b =
     session_anchored_a\<lparr>clock_reads := 9,
       uuid_draws := 7,
       files := [file_record_a, file_record_b],
       transactions := [upload_tx_a, upload_tx_b],
       blocks := (blocks session_anchored_a)(''fabric'' \<mapsto> the (blocks session_anchored_a ''fabric'') @ [block_anchored_b])\<rparr>"

text \<open>Doubling, for rewriting bit operations on binary numerals.\<close>

definition dbl0 :: "nat \<Rightarrow> nat" where
  "dbl0 n = 2 * n"

definition dbl1 :: "nat \<Rightarrow> nat" where
  "dbl1 n = 2 * n + 1"

section \<open>Evaluating the digest\<close>

lemma sched_extend_eval:
  "sched_extend n (w1 # w2 # w3 # w4 # w5 # w6 # w7 # w8 # w9 # w10 # w11 # w12 # w13 # w14 # w15 # w16 # r) =
    (if n = 0 then w1 # w2 # w3 # w4 # w5 # w6 # w7 # w8 # w9 # w10 # w11 # w12 # w13 # w14 # w15 # w16 # r
     else sched_extend (n - 1)
       (add32 (add32 (add32 (ssig1 w2) w7) (ssig0 w15)) w16 #
        w1 # w2 # w3 # w4 # w5 # w6 # w7 # w8 # w9 # w10 # w11 # w12 # w13 # w14 # w15 # w16 # r))"
  by (cases n) simp_all

lemma replicate_eval: "replicate n x = (if n = 0 then [] else x # replicate (n - 1) x)"
  by (cases n) simp_all

lemma add32_eval: "add32 a b = take_bit 32 (a + b)"
  by (simp add: add32_def take_bit_eq_mod)

lemma rotr_eval:
  "rotr 2 x = drop_bit 2 x OR push_bit 30 (take_bit 2 x)"
  "rotr 13 x = drop_bit 13 x OR push_bit 19 (take_bit 13 x)"
  "rotr 22 x = drop_bit 22 x OR push_bit 10 (take_bit 22 x)"
  "rotr 6 x = drop_bit 6 x OR push_bit 26 (take_bit 6 x)"
  "rotr 11 x = drop_bit 11 x OR push_bit 21 (take_bit 11 x)"
  "rotr 25 x = drop_bit 25 x OR push_bit 7 (take_bit 25 x)"
  "rotr 7 x = drop_bit 7 x OR push_bit 25 (take_bit 7 x)"
  "rotr 18 x = drop_bit 18 x OR push_bit 14 (take_bit 18 x)"
  "rotr 17 x = drop_bit 17 x OR push_bit 15 (take_bit 17 x)"
  "rotr 19 x = drop_bit 19 x OR push_bit 13 (take_bit 19 x)"
  by (simp_all add: rotr_def drop_bit_eq_div take_bit_eq_mod push_bit_eq_mult)

lemma shr_eval: "shr 3 x = drop_bit 3 x" "shr 10 x = drop_bit 10 x"
  by (simp_all add: shr_def drop_bit_eq_div)

lemma dbl_eval:
  "dbl0 0 = 0" "dbl0 1 = 2" "dbl0 (Suc 0) = 2" "dbl0 (numeral k) = numeral (Num.Bit0 k)"
  "dbl1 0 = 1" "dbl1 1 = 3" "dbl1 (Suc 0) = 3" "dbl1 (numeral k) = numeral (Num.Bit1 k)"
  by (simp_all add: dbl0_def dbl1_def numeral_Bit0 numeral_Bit1 mult_2)

lemma xor_eval:
  "(1::nat) XOR 1 = 0"
  "(1::nat) XOR numeral (Num.Bit0 y) = numeral (Num.Bit1 y)"
  "(1::nat) XOR numeral (Num.Bit1 y) = numeral (Num.Bit0 y)"
  "numeral (Num.Bit0 x) XOR (1::nat) = numeral (Num.Bit1 x)"
  "numeral (Num.Bit1 x) XOR (1::nat) = numeral (Num.Bit0 x)"
  "numeral (Num.Bit0 x) XOR numeral (Num.Bit0 y) = dbl0 (numeral x XOR numeral y)"
  "numeral (Num.Bit0 x) XOR numeral (Num.Bit1 y) = dbl1 (numeral x XOR numeral y)"
  "numeral (Num.Bit1 x) XOR numeral (Num.Bit0 y) = dbl1 (numeral x XOR numeral y)"
  "numeral (Num.Bit1 x) XOR numeral (Num.Bit1 y) = dbl0 (numeral x XOR numeral y)"
  "numeral Num.One XOR (z::nat) = 1 XOR z"
  "(z::nat) XOR numeral Num.One = z XOR 1"
  by (simp_all add: dbl0_def dbl1_def)

lemma and_eval:
  "(1::nat) AND 1 = 1"
  "(1::nat) AND numeral (Num.Bit0 y) = 0"
  "(1::nat) AND numeral (Num.Bit1 y) = 1"
  "numeral (Num.Bit0 x) AND (1::nat) = 0"
  "numeral (Num.Bit1 x) AND (1::nat) = 1"
  "numeral (Num.Bit0 x) AND numeral (Num.Bit0 y) = dbl0 (numeral x AND numeral y)"
  "numeral (Num.Bit0 x) AND numeral (Num.Bit1 y) = dbl0 (numeral x AND numeral y)"
  "numeral (Num.Bit1 x) AND numeral (Num.Bit0 y) = dbl0 (numeral x AND numeral y)"
  "numeral (Num.Bit1 x) AND numeral (Num.Bit1 y) = dbl1 (numeral x AND numeral y)"
  "numeral Num.One AND (z::nat) = 1 AND z"
  "(z::nat) AND numeral Num.One = z AND 1"
  by (simp_all add: dbl0_def dbl1_def)

lemma take_bit_eval:
  "take_bit 0 (z::nat) = 0"
  "take_bit (numeral l) (1::nat) = 1"
  "take_bit (Suc 0) (numeral (Num.Bit0 k) :: nat) = 0"
  "take_bit (Suc 0) (numeral (Num.Bit1 k) :: nat) = 1"
  "take_bit (numeral l) (numeral (Num.Bit0 k) :: nat) = dbl0 (take_bit (pred_numeral l) (numeral k))"
  "take_bit (numeral l) (numeral (Num.Bit1 k) :: nat) = dbl1 (take_bit (pred_numeral l) (numeral k))"
proof -
  have n: "numeral l = Suc (pred_numeral l)" by (simp add: numeral_eq_Suc)
  show "take_bit 0 (z::nat) = 0" by simp
  show "take_bit (numeral l) (1::nat) = 1" by simp
  show "take_bit (Suc 0) (numeral (Num.Bit0 k) :: nat) = 0" by (simp add: take_bit_Suc)
  show "take_bit (Suc 0) (numeral (Num.Bit1 k) :: nat) = 1" by (simp add: take_bit_Suc)
  show "take_bit (numeral l) (numeral (Num.Bit0 k) :: nat) = dbl0 (take_bit (pred_numeral l) (numeral k))"
    unfolding n dbl0_def by (simp only: take_bit_Suc numeral_Bit0_div_2) simp
  show "take_bit (numeral l) (numeral (Num.Bit1 k) :: nat) = dbl1 (take_bit (pred_numeral l) (numeral k))"
    unfolding n dbl1_def by (simp only: take_bit_Suc numeral_Bit1_div_2) simp
qed

lemmas sha_eval = calculate_hash_def hexdigest_def hex32_def hex_digit_def sha256_def pad_def
  encode_def compress_def schedule_def sched_extend_eval add32_eval ssig0_def ssig1_def bsig0_def
  bsig1_def ch_def maj_def not32_def shr_eval rotr_eval sha_k_def sha_h0_def Let_def replicate_eval
  numeral_or_num or_num.simps dbl_eval xor_eval and_eval take_bit_eval

lemmas sha_del = sched_extend.simps xor_numerals and_numerals or_numerals take_bit_numeral_bit0
  take_bit_numeral_bit1 take_bit_Suc_bit0 take_bit_Suc_bit1 take_bit_numeral_numeral

subsection \<open>The digests of the concrete calls\<close>

lemma hash_uuid0:
  "calculate_hash
     ''3f2b8c1e-5d4a-4e6f-9a7b-1c2d3e4f5a6b'' =
   ''3f60c6d52d2ee1fcdec8d315e543582f79a39c97dcfb651fa4cc0f1bf6129f82''"
  by (simp add: sha_eval del: sha_del)

lemma hash_genesis_besu:
  "calculate_hash
     ''Genesis Block besu'' =
   ''98916f6738b4eea5d839caca617eca5962ec2c8009f785fdcd0d04d18471f002''"
  by (simp add: sha_eval del: sha_del)

lemma hash_genesis_fabric:
  "calculate_hash
     ''Genesis Block fabric'' =
   ''fa95d9f08696ef76d6e7a22021c10c4ec0e41a4ea53e025abb9238043a6b2294''"
  by (simp add: sha_eval del: sha_del)

lemma hash_mine_n0:
  "calculate_hash
     ''12025-01-15T10:30:03.002293[]98916f6738b4eea5d839caca617eca5962ec2c8009f785fdcd0d04d18471f0020'' =
   ''d6f43d9f1a13cdae59c7a75209f6723da15c2f1805c4c4ec19242ab3c3502cc8''"
  by (simp add: sha_eval del: sha_del)

lemma hash_mine_n1:
  "calculate_hash
     ''12025-01-15T10:30:03.002293[]98916f6738b4eea5d839caca617eca5962ec2c8009f785fdcd0d04d18471f0021'' =
   ''4697979a9b4d1d26774d279afe1db9f2d4092997efe5a1396bbe222a1e78b28f''"
  by (simp add: sha_eval del: sha_del)

lemma hash_mine_n2:
  "calculate_hash
     ''12025-01-15T10:30:03.002293[]98916f6738b4eea5d839caca617eca5962ec2c8009f785fdcd0d04d18471f0022'' =
   ''0000c5664337ceeb7ec373ef74ff21b983575047dfc1eaf003d20b9d6e85cd58''"
  by (simp add: sha_eval del: sha_del)

lemma hash_uuid2:
  "calculate_hash
     ''c4e81f27-6a90-4d3b-b125-9f0e7d6c5b4a'' =
   ''88140c6203bc39bb6fead3823d5a69becfece9dfece39503dd6eaa29956d1cf8''"
  by (simp add: sha_eval del: sha_del)

lemma hash_bridge_block:
  "calculate_hash
     ''12025-01-15T10:30:05.089052[{'id': '0x88140c6203bc39bb6fead3823d5a69becfece9dfece39503dd6eaa29956d1cf8', 'type': 'Bridge Lock', 'from_address': '0x3f60c6d52d2ee1fcdec8d315e543582f79a39c97', 'to_address': '0xBridgebesu', 'data': {'asset': 'KZT_100', 'amount': 100, 'destination': 'fabric'}, 'timestamp': '2025-01-15T10:30:04.450210', 'blockchain': 'besu', 'status': 'Success', 'gas_used': 75000, 'block_number': 1}]98916f6738b4eea5d839caca617eca5962ec2c8009f785fdcd0d04d18471f0020'' =
   ''0000f3da64c582260bf3ce60521729234be1b44f44dedaef826318a22d13502b''"
  by (simp add: sha_eval del: sha_del)

lemma hash_bridge_same_block:
  "calculate_hash
     ''12025-01-15T10:30:05.089052[{'id': '0x88140c6203bc39bb6fead3823d5a69becfece9dfece39503dd6eaa29956d1cf8', 'type': 'Bridge Lock', 'from_address': '0x3f60c6d52d2ee1fcdec8d315e543582f79a39c97', 'to_address': '0xBridgebesu', 'data': {'asset': 'NFT-72961', 'amount': 1, 'destination': 'besu'}, 'timestamp': '2025-01-15T10:30:04.450210', 'blockchain': 'besu', 'status': 'Success', 'gas_used': 75000, 'block_number': 1}]98916f6738b4eea5d839caca617eca5962ec2c8009f785fdcd0d04d18471f0020'' =
   ''00008eb061bfee43047e6dcb227496f800c66cfb5f40a0e18397df0f150e50eb''"
  by (simp add: sha_eval del: sha_del)

lemma hash_contract_address:
  "calculate_hash
     ''Token2025-01-15 10:30:03.002293'' =
   ''a248b7bbc2670f67a0ff96afb1e2c8894d9244fb9e82d9ed445df4e4e7115fc9''"
  by (simp add: sha_eval del: sha_del)

lemma hash_uuid1:
  "calculate_hash
     ''7a1d9e33-0b52-4c18-8f60-2e9a4b7c1d05'' =
   ''63f63b508ff053ca71d21d30775fa39e41ea9d22ba592c3c98b16fcc00f0aa94''"
  by (simp add: sha_eval del: sha_del)

lemma hash_deploy_block:
  "calculate_hash
     ''12025-01-15T10:30:06.165094[{'id': '0x63f63b508ff053ca71d21d30775fa39e41ea9d22ba592c3c98b16fcc00f0aa94', 'type': 'Contract Deployment', 'from_address': '0x3f60c6d52d2ee1fcdec8d315e543582f79a39c97', 'to_address': '0xa248b7bbc2670f67a0ff96afb1e2c8894d9244fb', 'data': {'contract': 'Token', 'gas_limit': 3000000}, 'timestamp': '2025-01-15T10:30:05.089052', 'blockchain': 'fabric', 'status': 'Success', 'gas_used': 2100000, 'block_number': 1}]fa95d9f08696ef76d6e7a22021c10c4ec0e41a4ea53e025abb9238043a6b22940'' =
   ''00002dd241548e9f79d746e17e7b550bcb5e59d7062be542a9f606d775a04330''"
  by (simp add: sha_eval del: sha_del)

lemma hash_uuid3:
  "calculate_hash
     ''b8d2e6f1-3a4c-4b5d-9e70-000000004572'' =
   ''bee220bcdc281ce1a3e4c8b0f49f9fa35b90bc3d172ec1f3d2ddec89d5433672''"
  by (simp add: sha_eval del: sha_del)

lemma hash_upload1_block:
  "calculate_hash
     ''12025-01-15T10:30:05.089052[{'id': '0xbee220bcdc281ce1a3e4c8b0f49f9fa35b90bc3d172ec1f3d2ddec89d5433672', 'type': 'File Upload', 'from_address': '0x3f60c6d52d2ee1fcdec8d315e543582f79a39c97', 'to_address': '0x0000000000000000000000000000000000000000', 'data': {'file_name': 'hello.txt', 'file_hash': '2cf24dba5fb0a30e26e83b2ac5b9e29e1b161e5c1fa7425e73043362938b9824', 'ipfs_hash': 'Qm63f63b508ff053ca71d21d30775fa39e41ea9d22ba59', 'size': 5}, 'timestamp': '2025-01-15T10:30:04.450210', 'blockchain': 'besu', 'status': 'Success', 'gas_used': 50000, 'block_number': 1}]98916f6738b4eea5d839caca617eca5962ec2c8009f785fdcd0d04d18471f0020'' =
   ''0000a22e4f5f29210d63aaf5188550aa3c7b2c238d6c352ee84f48ee942df237''"
  by (simp add: sha_eval del: sha_del)

lemma hash_uuid4:
  "calculate_hash
     ''0d6f2a9b-8c17-4e5d-a3f4-6b1c0e9d8f72'' =
   ''b0588ba4f484795f41f50f2965b6115d0367fdcf326da77e9627927bf64bacd8''"
  by (simp add: sha_eval del: sha_del)

lemma hash_uuid6:
  "calculate_hash
     ''e5a4d3c2-b1f0-4987-a654-3c2b1a0f9e8d'' =
   ''a9ad617b2462f84770f8e4c704013dca7c8bee9adb34e63f97d9981a088db106''"
  by (simp add: sha_eval del: sha_del)

lemma hash_upload2_block:
  "calculate_hash
     ''12025-01-15T10:30:08.043700[{'id': '0xa9ad617b2462f84770f8e4c704013dca7c8bee9adb34e63f97d9981a088db106', 'type': 'File Upload', 'from_address': '0x3f60c6d52d2ee1fcdec8d315e543582f79a39c97', 'to_address': '0x0000000000000000000000000000000000000000', 'data': {'file_name': 'hello.txt', 'file_hash': '2cf24dba5fb0a30e26e83b2ac5b9e29e1b161e5c1fa7425e73043362938b9824', 'ipfs_hash': 'Qmb0588ba4f484795f41f50f2965b6115d0367fdcf326d', 'size': 5}, 'timestamp': '2025-01-15T10:30:07.733001', 'blockchain': 'fabric', 'status': 'Success', 'gas_used': 50000, 'block_number': 1}]fa95d9f08696ef76d6e7a22021c10c4ec0e41a4ea53e025abb9238043a6b22940'' =
   ''00001cb152598120de6f303a83ea6c7eaa493f9bdd438d2aabdea83e22686e42''"
  by (simp add: sha_eval del: sha_del)

lemma hash_hello:
  "hexdigest (sha256 ''hello'') =
   ''2cf24dba5fb0a30e26e83b2ac5b9e29e1b161e5c1fa7425e73043362938b9824''"
  by (simp add: sha_eval del: sha_del)

lemma hash_genesis_recomputed:
  "calculate_hash
     ''02025-01-15T10:30:00.120001[]00'' =
   ''1cf812ff2833893ea203b58f5416ac02584e8dbc56226dc8f90391016dc0446b''"
  by (simp add: sha_eval del: sha_del)

lemma hash_code:
  "calculate_hash
     ''contract Token {}'' =
   ''cf20d838d6c45ab6b824a3566aa01856466942d568517075520be70aaccd2b8a''"
  by (simp add: sha_eval del: sha_del)

lemma hash_anchor_a_block:
  "calculate_hash
     ''12025-01-15T10:30:05.089052[{'id': '0x3f60c6d52d2ee1fcdec8d315e543582f79a39c97dcfb651fa4cc0f1bf6129f82', 'type': 'File Upload', 'from_address': '0x3f60c6d52d2ee1fcdec8d315e543582f79a39c97', 'to_address': '0x0000000000000000000000000000000000000000', 'data': {'file_name': 'copy-97825.txt', 'file_hash': '2cf24dba5fb0a30e26e83b2ac5b9e29e1b161e5c1fa7425e73043362938b9824', 'ipfs_hash': 'Qm3f60c6d52d2ee1fcdec8d315e543582f79a39c97dcfb', 'size': 5}, 'timestamp': '2025-01-15T10:30:04.450210', 'blockchain': 'besu', 'status': 'Success', 'gas_used': 50000, 'block_number': 1}]98916f6738b4eea5d839caca617eca5962ec2c8009f785fdcd0d04d18471f0020'' =
   ''0000255b7e73af57967668cb2ed5d989b87c75d1596c727f9ce74015174d3eeb''"
  by (simp add: sha_eval del: sha_del)

lemma hash_anchor_b_block:
  "calculate_hash
     ''12025-01-15T10:30:08.043700[{'id': '0x3f60c6d52d2ee1fcdec8d315e543582f79a39c97dcfb651fa4cc0f1bf6129f82', 'type': 'File Upload', 'from_address': '0x3f60c6d52d2ee1fcdec8d315e543582f79a39c97', 'to_address': '0x0000000000000000000000000000000000000000', 'data': {'file_name': 'copy-14011.txt', 'file_hash': '2cf24dba5fb0a30e26e83b2ac5b9e29e1b161e5c1fa7425e73043362938b9824', 'ipfs_hash': 'Qm3f60c6d52d2ee1fcdec8d315e543582f79a39c97dcfb', 'size': 5}, 'timestamp': '2025-01-15T10:30:07.733001', 'blockchain': 'fabric', 'status': 'Success', 'gas_used': 50000, 'block_number': 1}]fa95d9f08696ef76d6e7a22021c10c4ec0e41a4ea53e025abb9238043a6b22940'' =
   ''0000464db811e5a073d42842cd33f42d0af34be3aeb123470c7053ec4104baff''"
  by (simp add: sha_eval del: sha_del)

lemmas hash_facts = hash_uuid0 hash_genesis_besu hash_genesis_fabric hash_mine_n0 hash_mine_n1 hash_mine_n2 hash_uuid2 hash_bridge_block hash_bridge_same_block hash_contract_address hash_uuid1 hash_deploy_block hash_uuid3 hash_upload1_block hash_uuid4 hash_uuid6 hash_upload2_block hash_hello hash_genesis_recomputed hash_code hash_anchor_a_block hash_anchor_b_block

section \<open>The mining loop and the effects of the calls\<close>

subsection \<open>The mining loop\<close>

lemma mine_loop_sound:
  assumes "mine_loop i t txs p n0 = Some y"
  shows "n0 \<le> snd y \<and> valid_nonce i t txs p (snd y) \<and>
         (\<forall>m. n0 \<le> m \<and> m < snd y \<longrightarrow> \<not> valid_nonce i t txs p m) \<and>
         fst y = calculate_hash (block_data i t txs p (snd y))"
proof (rule mine_loop.raw_induct[where P = "\<lambda>i t txs p n0 y. n0 \<le> snd y \<and> valid_nonce i t txs p (snd y) \<and>
         (\<forall>m. n0 \<le> m \<and> m < snd y \<longrightarrow> \<not> valid_nonce i t txs p m) \<and>
         fst y = calculate_hash (block_data i t txs p (snd y))", OF _ assms])
  fix f :: "nat \<Rightarrow> string \<Rightarrow> transaction list \<Rightarrow> string \<Rightarrow> nat \<Rightarrow> (string \<times> nat) option"
  fix i t txs p n y
  assume IH: "\<And>i t txs p n y. f i t txs p n = Some y \<Longrightarrow>
      n \<le> snd y \<and> valid_nonce i t txs p (snd y) \<and>
      (\<forall>m. n \<le> m \<and> m < snd y \<longrightarrow> \<not> valid_nonce i t txs p m) \<and>
      fst y = calculate_hash (block_data i t txs p (snd y))"
  assume body: "(let hash_value = calculate_hash (block_data i t txs p n)
      in if take 4 hash_value = ''0000'' then Some (hash_value, n)
         else f i t txs p (n + 1)) = Some y"
  show "n \<le> snd y \<and> valid_nonce i t txs p (snd y) \<and>
      (\<forall>m. n \<le> m \<and> m < snd y \<longrightarrow> \<not> valid_nonce i t txs p m) \<and>
      fst y = calculate_hash (block_data i t txs p (snd y))"
  proof (cases "valid_nonce i t txs p n")
    case True
    with body have "y = (calculate_hash (block_data i t txs p n), n)"
      by (simp add: valid_nonce_def meets_difficulty_def Let_def)
    with True show ?thesis by auto
  next
    case False
    with body have "f i t txs p (n + 1) = Some y"
      by (simp add: valid_nonce_def meets_difficulty_def Let_def)
    from IH[OF this] have a: "n + 1 \<le> snd y" and b: "valid_nonce i t txs p (snd y)"
      and c: "\<forall>m. n + 1 \<le> m \<and> m < snd y \<longrightarrow> \<not> valid_nonce i t txs p m"
      and d: "fst y = calculate_hash (block_data i t txs p (snd y))" by auto
    have "\<not> valid_nonce i t txs p m" if "n \<le> m" "m < snd y" for m
    proof (cases "m = n")
      case True with False show ?thesis by simp
    next
      case False with that c show ?thesis by simp
    qed
    with a b d show ?thesis by auto
  qed
qed

lemma mine_loop_complete:
  "valid_nonce i t txs p n \<Longrightarrow> n0 \<le> n \<Longrightarrow>
   (\<forall>m. n0 \<le> m \<and> m < n \<longrightarrow> \<not> valid_nonce i t txs p m) \<Longrightarrow>
   mine_loop i t txs p n0 = Some (calculate_hash (block_data i t txs p n), n)"
proof (induction "n - n0" arbitrary: n0)
  case 0
  then have "n0 = n" by simp
  with 0 show ?case
    by (subst mine_loop.simps) (simp add: valid_nonce_def meets_difficulty_def Let_def)
next
  case (Suc k)
  then have lt: "n0 < n" by simp
  with Suc.prems have nv: "\<not> valid_nonce i t txs p n0" by simp
  have "mine_loop i t txs p (n0 + 1) = Some (calculate_hash (block_data i t txs p n), n)"
    using Suc.hyps(2) Suc.prems lt by (intro Suc.hyps(1)) auto
  with nv show ?case
    by (subst mine_loop.simps) (simp add: valid_nonce_def meets_difficulty_def Let_def)
qed

lemma mine_loop_iff:
  "mine_loop i t txs p 0 = Some (h, n) \<longleftrightarrow>
     valid_nonce i t txs p n \<and> (\<forall>m < n. \<not> valid_nonce i t txs p m) \<and>
     h = calculate_hash (block_data i t txs p n)"
proof
  assume "mine_loop i t txs p 0 = Some (h, n)"
  from mine_loop_sound[OF this]
  show "valid_nonce i t txs p n \<and> (\<forall>m < n. \<not> valid_nonce i t txs p m) \<and>
     h = calculate_hash (block_data i t txs p n)" by simp
next
  assume a: "valid_nonce i t txs p n \<and> (\<forall>m < n. \<not> valid_nonce i t txs p m) \<and>
     h = calculate_hash (block_data i t txs p n)"
  then have "mine_loop i t txs p 0 = Some (calculate_hash (block_data i t txs p n), n)"
    by (intro mine_loop_complete) simp_all
  with a show "mine_loop i t txs p 0 = Some (h, n)" by simp
qed

lemma mine_loop_returns:
  assumes "valid_nonce i t txs p n"
  shows "\<exists>h k. mine_loop i t txs p 0 = Some (h, k)"
proof -
  let ?k = "LEAST k. valid_nonce i t txs p k"
  have "valid_nonce i t txs p ?k" using assms by (rule LeastI)
  moreover have "\<forall>m < ?k. \<not> valid_nonce i t txs p m" using not_less_Least by blast
  ultimately show ?thesis using mine_loop_iff by blast
qed

lemma mine_loop_None:
  "mine_loop i t txs p 0 = None \<longleftrightarrow> (\<forall>n. \<not> valid_nonce i t txs p n)"
proof
  assume "mine_loop i t txs p 0 = None"
  then show "\<forall>n. \<not> valid_nonce i t txs p n"
    using mine_loop_returns[of i t txs p] by auto
next
  assume a: "\<forall>n. \<not> valid_nonce i t txs p n"
  show "mine_loop i t txs p 0 = None"
  proof (cases "mine_loop i t txs p 0")
    case None then show ?thesis .
  next
    case (Some y)
    from mine_loop_sound[OF this] a show ?thesis by blast
  qed
qed

subsection \<open>What a call changes\<close>

lemma mine_block_ReturnedD:
  assumes "mine_block e chain txs s = Some (Returned b s')"
  shows "\<exists>bs h n. blocks s chain = Some bs \<and> bs \<noteq> [] \<and>
     mine_loop (length bs) (isoformat (now e (clock_reads s))) txs (b_hash (last bs)) 0 = Some (h, n) \<and>
     b = \<lparr>b_index = length bs, b_timestamp = isoformat (now e (clock_reads s)),
          b_transactions = txs, previous_hash = b_hash (last bs), b_hash = h, nonce = n,
          miner = take 10 (address (wallet s)) @ ''...''\<rparr> \<and>
     s' = s\<lparr>clock_reads := clock_reads s + 1, blocks := (blocks s)(chain \<mapsto> bs @ [b])\<rparr>"
  using assms
  by (auto simp: mine_block_def read_now_def Let_def split: option.splits if_splits)

lemma mine_block_ReturnedE:
  assumes "mine_block e chain txs s = Some (Returned b s')"
  obtains bs where "blocks s chain = Some bs" and "bs \<noteq> []"
    and "mine_loop (length bs) (isoformat (now e (clock_reads s))) txs (b_hash (last bs)) 0 =
           Some (b_hash b, nonce b)"
    and "b_index b = length bs" and "b_timestamp b = isoformat (now e (clock_reads s))"
    and "b_transactions b = txs" and "previous_hash b = b_hash (last bs)"
    and "miner b = take 10 (address (wallet s)) @ ''...''"
    and "s' = s\<lparr>clock_reads := clock_reads s + 1, blocks := (blocks s)(chain \<mapsto> bs @ [b])\<rparr>"
proof -
  have "\<exists>bs h n. blocks s chain = Some bs \<and> bs \<noteq> [] \<and>
     mine_loop (length bs) (isoformat (now e (clock_reads s))) txs (b_hash (last bs)) 0 = Some (h, n) \<and>
     b = \<lparr>b_index = length bs, b_timestamp = isoformat (now e (clock_reads s)),
          b_transactions = txs, previous_hash = b_hash (last bs), b_hash = h, nonce = n,
          miner = take 10 (address (wallet s)) @ ''...''\<rparr> \<and>
     s' = s\<lparr>clock_reads := clock_reads s + 1, blocks := (blocks s)(chain \<mapsto> bs @ [b])\<rparr>"
    by (rule mine_block_ReturnedD[OF assms])
  then obtain bs where "\<exists>h n. blocks s chain = Some bs \<and> bs \<noteq> [] \<and>
     mine_loop (length bs) (isoformat (now e (clock_reads s))) txs (b_hash (last bs)) 0 = Some (h, n) \<and>
     b = \<lparr>b_index = length bs, b_timestamp = isoformat (now e (clock_reads s)),
          b_transactions = txs, previous_hash = b_hash (last bs), b_hash = h, nonce = n,
          miner = take 10 (address (wallet s)) @ ''...''\<rparr> \<and>
     s' = s\<lparr>clock_reads := clock_reads s + 1, blocks := (blocks s)(chain \<mapsto> bs @ [b])\<rparr>" ..
  then obtain h where "\<exists>n. blocks s chain = Some bs \<and> bs \<noteq> [] \<and>
     mine_loop (length bs) (isoformat (now e (clock_reads s))) txs (b_hash (last bs)) 0 = Some (h, n) \<and>
     b = \<lparr>b_index = length bs, b_timestamp = isoformat (now e (clock_reads s)),
          b_transactions = txs, previous_hash = b_hash (last bs), b_hash = h, nonce = n,
          miner = take 10 (address (wallet s)) @ ''...''\<rparr> \<and>
     s' = s\<lparr>clock_reads := clock_reads s + 1, blocks := (blocks s)(chain \<mapsto> bs @ [b])\<rparr>" ..
  then obtain n where c: "blocks s chain = Some bs \<and> bs \<noteq> [] \<and>
     mine_loop (length bs) (isoformat (now e (clock_reads s))) txs (b_hash (last bs)) 0 = Some (h, n) \<and>
     b = \<lparr>b_index = length bs, b_timestamp = isoformat (now e (clock_reads s)),
          b_transactions = txs, previous_hash = b_hash (last bs), b_hash = h, nonce = n,
          miner = take 10 (address (wallet s)) @ ''...''\<rparr> \<and>
     s' = s\<lparr>clock_reads := clock_reads s + 1, blocks := (blocks s)(chain \<mapsto> bs @ [b])\<rparr>" ..
  then have b: "b = \<lparr>b_index = length bs, b_timestamp = isoformat (now e (clock_reads s)),
          b_transactions = txs, previous_hash = b_hash (last bs), b_hash = h, nonce = n,
          miner = take 10 (address (wallet s)) @ ''...''\<rparr>" by simp
  show thesis
  proof (rule that[of bs])
    show "blocks s chain = Some bs" using c by simp
    show "bs \<noteq> []" using c by simp
    show "mine_loop (length bs) (isoformat (now e (clock_reads s))) txs (b_hash (last bs)) 0 =
           Some (b_hash b, nonce b)" using c by (simp add: b)
    show "b_index b = length bs" by (simp add: b)
    show "b_timestamp b = isoformat (now e (clock_reads s))" by (simp add: b)
    show "b_transactions b = txs" by (simp add: b)
    show "previous_hash b = b_hash (last bs)" by (simp add: b)
    show "miner b = take 10 (address (wallet s)) @ ''...''" by (simp add: b)
    show "s' = s\<lparr>clock_reads := clock_reads s + 1, blocks := (blocks s)(chain \<mapsto> bs @ [b])\<rparr>"
      using c by blast
  qed
qed

lemma mine_block_RaisedD:
  assumes "mine_block e chain txs s = Some (Raised err s')"
  shows "s' = s \<and> (blocks s chain = None \<or> blocks s chain = Some [])"
  using assms
  by (auto simp: mine_block_def read_now_def Let_def split: option.splits if_splits)

lemma mine_block_eq:
  assumes "blocks s chain = Some bs" "bs \<noteq> []"
  shows "mine_block e chain txs s =
    (case mine_loop (length bs) (isoformat (now e (clock_reads s))) txs (b_hash (last bs)) 0 of
       None \<Rightarrow> None
     | Some (h, n) \<Rightarrow>
         Some (Returned
           \<lparr>b_index = length bs, b_timestamp = isoformat (now e (clock_reads s)),
            b_transactions = txs, previous_hash = b_hash (last bs), b_hash = h, nonce = n,
            miner = take 10 (address (wallet s)) @ ''...''\<rparr>
           (s\<lparr>clock_reads := clock_reads s + 1,
              blocks := (blocks s)(chain \<mapsto> bs @
                [\<lparr>b_index = length bs, b_timestamp = isoformat (now e (clock_reads s)),
                  b_transactions = txs, previous_hash = b_hash (last bs), b_hash = h, nonce = n,
                  miner = take 10 (address (wallet s)) @ ''...''\<rparr>])\<rparr>)))"
  using assms
  by (auto simp: mine_block_def read_now_def Let_def split: option.splits if_splits)

lemma render_transfers_session:
  "snd (render_transfers e ts s) = s\<lparr>rand_draws := rand_draws s + length ts\<rparr>"
  by (induction ts arbitrary: s) (simp_all add: draw_randint_def Let_def split_def)

lemma deploy_blocks:
  assumes "deploy_smart_contract e name code chain s = Some r"
  shows "blocks (after r) = blocks s \<or>
     (\<exists>c txs s0 b. blocks s0 = blocks s \<and> mine_block e c txs s0 = Some (Returned b (after r)))"
  using assms
  apply (simp add: deploy_smart_contract_def read_now_def draw_uuid_def Let_def
      split: option.splits outcome.splits)
  apply (auto dest!: mine_block_RaisedD)
  done

lemma upload_blocks:
  assumes "upload_file_to_blockchain e file chain s = Some r"
  shows "blocks (after r) = blocks s \<or>
     (\<exists>c txs s0 b. blocks s0 = blocks s \<and> mine_block e c txs s0 = Some (Returned b (after r)))"
  using assms
  apply (simp add: upload_file_to_blockchain_def generate_ipfs_hash_def file_read_def
      read_now_def draw_uuid_def Let_def split: option.splits outcome.splits)
  apply (auto dest!: mine_block_RaisedD)
  done

lemma bridge_blocks:
  assumes "bridge_asset e a f t amt s = Some r"
  shows "blocks (after r) = blocks s \<or>
     (\<exists>c txs s0 b. blocks s0 = blocks s \<and> mine_block e c txs s0 = Some (Returned b (after r)))"
  using assms
  apply (simp add: bridge_asset_def read_now_def draw_uuid_def Let_def
      split: option.splits outcome.splits)
  apply (auto dest!: mine_block_RaisedD)
  done

lemma mine_blocks:
  assumes "mine_block e chain txs s = Some r"
  shows "blocks (after r) = blocks s \<or>
     (\<exists>c txs s0 b. blocks s0 = blocks s \<and> mine_block e c txs s0 = Some (Returned b (after r)))"
proof (cases r)
  case (Returned b s')
  with assms show ?thesis by auto
next
  case (Raised err s')
  with assms show ?thesis by (auto dest!: mine_block_RaisedD)
qed

lemma mine_new_blocks:
  assumes "mine_new_block e s = Some r"
  shows "blocks (after r) = blocks s \<or>
     (\<exists>c txs s0 b. blocks s0 = blocks s \<and> mine_block e c txs s0 = Some (Returned b (after r)))"
proof (cases "blocks s (current_chain s)")
  case None
  with assms show ?thesis by (auto simp: mine_new_block_def)
next
  case (Some bs)
  have "\<exists>txs s0. mine_new_block e s = mine_block e (current_chain s) txs s0 \<and> blocks s0 = blocks s"
    unfolding mine_new_block_def read_now_def draw_uuid_def draw_randint_def Let_def Some
    by (simp only: option.case prod.case) (intro exI conjI, rule refl, simp)
  then obtain txs s0 where eq: "mine_new_block e s = mine_block e (current_chain s) txs s0"
    and bl: "blocks s0 = blocks s" by blast
  from assms eq have "mine_block e (current_chain s) txs s0 = Some r" by simp
  from mine_blocks[OF this] bl show ?thesis by metis
qed

lemma step_blocks:
  assumes "step e x s = Some s'"
  shows "blocks s' = blocks s \<or>
     (\<exists>c txs s0 b. blocks s0 = blocks s \<and> mine_block e c txs s0 = Some (Returned b s'))"
proof (cases x)
  case (SelectChain c)
  with assms show ?thesis by (auto simp: select_chain_def)
next
  case MineNewBlock
  with assms obtain r where "mine_new_block e s = Some r" "s' = after r" by auto
  with mine_new_blocks[of e s r] show ?thesis by simp
next
  case (MineBlock chain txs)
  with assms obtain r where "mine_block e chain txs s = Some r" "s' = after r" by auto
  with mine_blocks[of e chain txs s r] show ?thesis by simp
next
  case (Deploy name code chain)
  with assms obtain r where "deploy_smart_contract e name code chain s = Some r" "s' = after r" by auto
  with deploy_blocks[of e name code chain s r] show ?thesis by simp
next
  case (Upload fl chain)
  with assms obtain r where "upload_file_to_blockchain e fl chain s = Some r" "s' = after r" by auto
  with upload_blocks[of e fl chain s r] show ?thesis by simp
next
  case (Bridge a f t amt)
  with assms obtain r where "bridge_asset e a f t amt s = Some r" "s' = after r" by auto
  with bridge_blocks[of e a f t amt s r] show ?thesis by simp
next
  case RenderBridge
  with assms show ?thesis by (auto simp: render_bridge_def render_transfers_session)
qed

subsection \<open>The fresh session\<close>

lemma init_blocks:
  assumes "blocks (init_session_state e) c = Some bs"
  shows "\<exists>t. bs = [\<lparr>b_index = 0, b_timestamp = t, b_transactions = [], previous_hash = ''0'',
            b_hash = calculate_hash (''Genesis Block '' @ c), nonce = 0, miner = ''System''\<rparr>]"
  using assms
  by (auto simp: init_session_state_def generate_genesis_block_def generate_wallet_def
      read_now_def draw_uuid_def Let_def split: if_splits)


subsection \<open>Linkage\<close>

lemma chain_linked_append:
  assumes "chain_linked bs" "previous_hash b = b_hash (last bs)" "b_index b = length bs"
  shows "chain_linked (bs @ [b])"
proof -
  from assms(1) have ne: "bs \<noteq> []" by (simp add: chain_linked_def)
  have "previous_hash ((bs @ [b]) ! i) = b_hash ((bs @ [b]) ! (i - 1)) \<and> b_index ((bs @ [b]) ! i) = i"
    if "i \<in> {1..<length (bs @ [b])}" for i
  proof (cases "i < length bs")
    case True
    then have "i - 1 < length bs" by simp
    with True that assms(1) show ?thesis by (simp add: chain_linked_def nth_append)
  next
    case False
    with that have i: "i = length bs" by simp
    with ne have "(bs @ [b]) ! (i - 1) = last bs"
      by (simp add: nth_append last_conv_nth)
    with i assms(2,3) show ?thesis by simp
  qed
  with assms(1) ne show ?thesis
    by (simp add: chain_linked_def nth_append)
qed

lemma mine_block_linked:
  assumes "chains_linked s" "mine_block e chain txs s = Some (Returned b s')"
  shows "chains_linked s'"
proof -
  from assms(2) obtain bs where
    bs: "blocks s chain = Some bs" and b1: "b_index b = length bs"
    and b2: "previous_hash b = b_hash (last bs)"
    and s': "s' = s\<lparr>clock_reads := clock_reads s + 1, blocks := (blocks s)(chain \<mapsto> bs @ [b])\<rparr>"
    by (rule mine_block_ReturnedE) (rule that)
  from assms(1) bs have "chain_linked bs" by (simp add: chains_linked_def)
  then have "chain_linked (bs @ [b])" using b2 b1 by (rule chain_linked_append)
  with assms(1) s' show ?thesis by (auto simp: chains_linked_def)
qed

lemma init_linked: "chains_linked (init_session_state e)"
  unfolding chains_linked_def
proof (intro allI impI)
  fix c bs assume "blocks (init_session_state e) c = Some bs"
  from init_blocks[OF this] show "chain_linked bs" by (auto simp: chain_linked_def)
qed

lemma step_linked:
  assumes "chains_linked s" "step e x s = Some s'"
  shows "chains_linked s'"
proof -
  from step_blocks[OF assms(2)] show ?thesis
  proof
    assume "blocks s' = blocks s"
    with assms(1) show ?thesis by (simp add: chains_linked_def)
  next
    assume "\<exists>c txs s0 b. blocks s0 = blocks s \<and> mine_block e c txs s0 = Some (Returned b s')"
    then obtain c txs s0 b where b: "blocks s0 = blocks s"
      and m: "mine_block e c txs s0 = Some (Returned b s')" by blast
    from assms(1) b have "chains_linked s0" by (simp add: chains_linked_def)
    then show ?thesis using m by (rule mine_block_linked)
  qed
qed

lemma run_linked:
  "chains_linked s \<Longrightarrow> run e xs s = Some s' \<Longrightarrow> chains_linked s'"
proof (induction xs arbitrary: s)
  case Nil
  then show ?case by simp
next
  case (Cons x xs)
  then show ?case by (auto split: option.splits dest: step_linked)
qed

subsection \<open>Proof of work\<close>

lemma mine_block_proof_of_work:
  assumes "mine_block e chain txs s = Some (Returned b s')"
  shows "proof_of_work b"
proof -
  from assms obtain bs where
    bs: "blocks s chain = Some bs" and ne: "bs \<noteq> []"
    and ml: "mine_loop (length bs) (isoformat (now e (clock_reads s))) txs (b_hash (last bs)) 0 =
           Some (b_hash b, nonce b)"
    and f: "b_index b = length bs" "b_timestamp b = isoformat (now e (clock_reads s))"
       "b_transactions b = txs" "previous_hash b = b_hash (last bs)"
    and mn: "miner b = take 10 (address (wallet s)) @ ''...''"
    and s': "s' = s\<lparr>clock_reads := clock_reads s + 1, blocks := (blocks s)(chain \<mapsto> bs @ [b])\<rparr>"
    by (rule mine_block_ReturnedE)
  from mine_loop_sound[OF ml] f show ?thesis
    by (simp add: proof_of_work_def recomputed_hash_def valid_nonce_def)
qed

lemma chain_proved_append:
  assumes "chain_proved c bs" "proof_of_work b"
  shows "chain_proved c (bs @ [b])"
proof -
  from assms(1) have ne: "bs \<noteq> []" by (simp add: chain_proved_def)
  have "proof_of_work ((bs @ [b]) ! i)" if "i \<in> {1..<length (bs @ [b])}" for i
  proof (cases "i < length bs")
    case True
    with that assms(1) show ?thesis by (simp add: chain_proved_def nth_append)
  next
    case False
    with that have "i = length bs" by simp
    with assms(2) show ?thesis by simp
  qed
  with assms(1) ne show ?thesis by (simp add: chain_proved_def nth_append)
qed

lemma mine_block_proved:
  assumes "chains_proved s" "mine_block e chain txs s = Some (Returned b s')"
  shows "chains_proved s'"
proof -
  from assms(2) obtain bs where
    bs: "blocks s chain = Some bs"
    and s': "s' = s\<lparr>clock_reads := clock_reads s + 1, blocks := (blocks s)(chain \<mapsto> bs @ [b])\<rparr>"
    by (rule mine_block_ReturnedE) (rule that)
  from assms(1) bs have "chain_proved chain bs" by (simp add: chains_proved_def)
  then have "chain_proved chain (bs @ [b])"
    using mine_block_proof_of_work[OF assms(2)] by (rule chain_proved_append)
  with assms(1) s' show ?thesis by (auto simp: chains_proved_def)
qed

lemma init_proved: "chains_proved (init_session_state e)"
  unfolding chains_proved_def
proof (intro allI impI)
  fix c bs assume "blocks (init_session_state e) c = Some bs"
  from init_blocks[OF this] show "chain_proved c bs" by (auto simp: chain_proved_def)
qed

lemma step_proved:
  assumes "chains_proved s" "step e x s = Some s'"
  shows "chains_proved s'"
proof -
  from step_blocks[OF assms(2)] show ?thesis
  proof
    assume "blocks s' = blocks s"
    with assms(1) show ?thesis by (simp add: chains_proved_def)
  next
    assume "\<exists>c txs s0 b. blocks s0 = blocks s \<and> mine_block e c txs s0 = Some (Returned b s')"
    then obtain c txs s0 b where b: "blocks s0 = blocks s"
      and m: "mine_block e c txs s0 = Some (Returned b s')" by blast
    from assms(1) b have "chains_proved s0" by (simp add: chains_proved_def)
    then show ?thesis using m by (rule mine_block_proved)
  qed
qed

lemma run_proved:
  "chains_proved s \<Longrightarrow> run e xs s = Some s' \<Longrightarrow> chains_proved s'"
proof (induction xs arbitrary: s)
  case Nil
  then show ?case by simp
next
  case (Cons x xs)
  then show ?case by (auto split: option.splits dest: step_proved)
qed

subsection \<open>What a call leaves unchanged\<close>

lemma mine_block_Returned_frame:
  assumes "mine_block e c txs s = Some (Returned b s')"
  shows "transactions s' = transactions s \<and> smart_contracts s' = smart_contracts s \<and>
     files s' = files s \<and> current_chain s' = current_chain s \<and> wallet s' = wallet s \<and>
     bridge_transfers s' = bridge_transfers s \<and> uuid_draws s' = uuid_draws s \<and>
     rand_draws s' = rand_draws s \<and> clock_reads s' = clock_reads s + 1"
proof -
  from assms obtain bs where
    bs: "blocks s c = Some bs" and ne: "bs \<noteq> []"
    and ml: "mine_loop (length bs) (isoformat (now e (clock_reads s))) txs (b_hash (last bs)) 0 =
           Some (b_hash b, nonce b)"
    and f: "b_index b = length bs" "b_timestamp b = isoformat (now e (clock_reads s))"
       "b_transactions b = txs" "previous_hash b = b_hash (last bs)"
    and mn: "miner b = take 10 (address (wallet s)) @ ''...''"
    and s': "s' = s\<lparr>clock_reads := clock_reads s + 1, blocks := (blocks s)(c \<mapsto> bs @ [b])\<rparr>"
    by (rule mine_block_ReturnedE)
  show ?thesis by (simp add: s')
qed

lemma mine_block_Returned_blocks:
  assumes "mine_block e c txs s = Some (Returned b s')"
  shows "\<exists>bs. blocks s c = Some bs \<and> bs \<noteq> [] \<and> blocks s' = (blocks s)(c \<mapsto> bs @ [b]) \<and>
     b_transactions b = txs \<and> b_index b = length bs"
proof -
  from assms obtain bs where
    bs: "blocks s c = Some bs" and ne: "bs \<noteq> []"
    and ml: "mine_loop (length bs) (isoformat (now e (clock_reads s))) txs (b_hash (last bs)) 0 =
           Some (b_hash b, nonce b)"
    and f: "b_index b = length bs" "b_timestamp b = isoformat (now e (clock_reads s))"
       "b_transactions b = txs" "previous_hash b = b_hash (last bs)"
    and mn: "miner b = take 10 (address (wallet s)) @ ''...''"
    and s': "s' = s\<lparr>clock_reads := clock_reads s + 1, blocks := (blocks s)(c \<mapsto> bs @ [b])\<rparr>"
    by (rule mine_block_ReturnedE)
  show ?thesis using bs ne f by (simp add: s')
qed

lemma mine_block_not_Raised:
  assumes "blocks s c = Some bs" "bs \<noteq> []"
  shows "mine_block e c txs s \<noteq> Some (Raised err s')"
  using assms by (auto dest!: mine_block_RaisedD)

subsection \<open>\<^verbatim>\<open>bridge_asset\<close>\<close>

lemma bridge_asset_ReturnedD:
  assumes "bridge_asset e a f t amt s = Some (Returned tr s')"
  shows "\<exists>bs tx b. blocks s f = Some bs \<and> bs \<noteq> [] \<and>
     tr = \<lparr>br_id = uuid4 e (uuid_draws s), asset = a, from_chain = f, to_chain = t,
           amount = amt, br_status = ''Processing'',
           br_timestamp = isoformat (now e (clock_reads s)),
           confirmations = 0, required_confirmations = 10\<rparr> \<and>
     tx_type tx = ''Bridge Lock'' \<and> gas_used tx = 75000 \<and> tx_blockchain tx = f \<and>
     from_address tx = address (wallet s) \<and> block_number tx = length bs \<and>
     tx_data tx = [(''asset'', PStr a), (''amount'', amt), (''destination'', PStr t)] \<and>
     bridge_transfers s' = bridge_transfers s @ [tr] \<and>
     transactions s' = transactions s @ [tx] \<and>
     blocks s' = (blocks s)(f \<mapsto> bs @ [b]) \<and> b_transactions b = [tx] \<and>
     b_index b = length bs \<and>
     smart_contracts s' = smart_contracts s \<and> files s' = files s \<and> wallet s' = wallet s \<and>
     uuid_draws s' = uuid_draws s + 2"
  using assms
  apply (simp add: bridge_asset_def read_now_def draw_uuid_def Let_def
      split: option.splits outcome.splits)
  apply (frule mine_block_Returned_frame)
  apply (drule mine_block_Returned_blocks)
  apply (auto simp: fun_upd_def)
  done

lemma bridge_asset_RaisedD:
  assumes "bridge_asset e a f t amt s = Some (Raised err s')"
  shows "err = KeyError \<and> blocks s f = None \<and> blocks s' = blocks s \<and>
     transactions s' = transactions s \<and>
     (\<exists>tr. bridge_transfers s' = bridge_transfers s @ [tr] \<and> from_chain tr = f \<and> to_chain tr = t)
     \<or> blocks s f = Some [] \<and> blocks s' = blocks s"
  using assms
  apply (simp add: bridge_asset_def read_now_def draw_uuid_def Let_def
      split: option.splits outcome.splits)
   apply (auto dest!: mine_block_RaisedD)
  done

subsection \<open>\<^verbatim>\<open>deploy_smart_contract\<close>\<close>

lemma deploy_ReturnedD:
  assumes "deploy_smart_contract e name code chain s = Some (Returned c s')"
  shows "\<exists>bs tx b. blocks s chain = Some bs \<and> bs \<noteq> [] \<and>
     sc_name c = name \<and> sc_blockchain c = chain \<and> abi c = mock_abi \<and>
     sc_address c = ''0x'' @ take 40 (calculate_hash (name @ str_datetime (now e (clock_reads s)))) \<and>
     tx_type tx = ''Contract Deployment'' \<and> gas_used tx = 2100000 \<and> tx_blockchain tx = chain \<and>
     from_address tx = address (wallet s) \<and> to_address tx = sc_address c \<and>
     block_number tx = length bs \<and>
     smart_contracts s' = smart_contracts s @ [c] \<and>
     transactions s' = transactions s @ [tx] \<and>
     blocks s' = (blocks s)(chain \<mapsto> bs @ [b]) \<and> b_transactions b = [tx] \<and>
     b_index b = length bs \<and>
     bridge_transfers s' = bridge_transfers s \<and> files s' = files s \<and> wallet s' = wallet s \<and>
     uuid_draws s' = uuid_draws s + 1"
  using assms
  apply (simp add: deploy_smart_contract_def read_now_def draw_uuid_def Let_def
      split: option.splits outcome.splits)
  apply (frule mine_block_Returned_frame)
  apply (drule mine_block_Returned_blocks)
  apply (auto simp: fun_upd_def)
  done

lemma deploy_RaisedD:
  assumes "deploy_smart_contract e name code chain s = Some (Raised err s')"
  shows "(err = KeyError \<and> blocks s chain = None \<or> err = IndexError \<and> blocks s chain = Some []) \<and>
     blocks s' = blocks s \<and>
     (\<exists>c. smart_contracts s' = smart_contracts s @ [c] \<and> sc_name c = name \<and> sc_blockchain c = chain)"
  using assms
  apply (simp add: deploy_smart_contract_def read_now_def draw_uuid_def Let_def
      split: option.splits outcome.splits)
   apply (auto simp: mine_block_def read_now_def Let_def split: option.splits if_splits prod.splits)
  done

lemma deploy_unknown_chain:
  assumes "blocks s chain = None"
  shows "\<exists>s'. deploy_smart_contract e name code chain s = Some (Raised KeyError s') \<and>
     length (smart_contracts s') = length (smart_contracts s) + 1 \<and>
     transactions s' = transactions s \<and> blocks s' = blocks s"
  using assms
  by (simp add: deploy_smart_contract_def read_now_def draw_uuid_def Let_def)

lemma bridge_unknown_chain:
  assumes "blocks s f = None"
  shows "\<exists>s'. bridge_asset e a f t amt s = Some (Raised KeyError s') \<and>
     length (bridge_transfers s') = length (bridge_transfers s) + 1 \<and>
     transactions s' = transactions s \<and> blocks s' = blocks s"
  using assms
  by (simp add: bridge_asset_def read_now_def draw_uuid_def Let_def)

subsection \<open>\<^verbatim>\<open>upload_file_to_blockchain\<close>\<close>

lemma upload_ReturnedD:
  assumes "upload_file_to_blockchain e fl chain s = Some (Returned (r, fl') s')"
  shows "\<exists>bs tx b. blocks s chain = Some bs \<and> bs \<noteq> [] \<and>
     file_id r = uuid4 e (uuid_draws s + 1) \<and>
     fr_hash r = hexdigest (sha256 (drop (up_pos fl) (up_content fl))) \<and>
     fr_size r = length (drop (up_pos fl) (up_content fl)) \<and>
     ipfs_hash r = ''Qm'' @ take 44 (calculate_hash (uuid4 e (uuid_draws s))) \<and>
     fr_name r = up_name fl \<and> fr_blockchain r = chain \<and> owner r = address (wallet s) \<and>
     tx_type tx = ''File Upload'' \<and> gas_used tx = 50000 \<and> tx_blockchain tx = chain \<and>
     files s' = files s @ [r] \<and>
     transactions s' = transactions s @ [tx] \<and>
     blocks s' = (blocks s)(chain \<mapsto> bs @ [b]) \<and> b_transactions b = [tx] \<and>
     bridge_transfers s' = bridge_transfers s \<and> smart_contracts s' = smart_contracts s \<and>
     wallet s' = wallet s \<and> uuid_draws s' = uuid_draws s + 3"
  using assms
  apply (simp add: upload_file_to_blockchain_def generate_ipfs_hash_def file_read_def
      read_now_def draw_uuid_def Let_def split: option.splits outcome.splits)
  apply (frule mine_block_Returned_frame)
  apply (drule mine_block_Returned_blocks)
  apply (auto simp: fun_upd_def)
  done

subsection \<open>What every operation keeps\<close>

lemma mine_block_kept:
  assumes "mine_block e c txs s = Some r"
  shows "kept s (after r)"
proof (cases r)
  case (Returned b s')
  with assms mine_block_Returned_frame[of e c txs s b s'] show ?thesis by (simp add: kept_def)
next
  case (Raised err s')
  with assms mine_block_RaisedD[of e c txs s err s'] show ?thesis by (simp add: kept_def)
qed

lemma kept_trans_left:
  assumes "wallet s0 = wallet s" "uuid_draws s \<le> uuid_draws s0"
    "bridge_transfers s0 = bridge_transfers s" "kept s0 s'"
  shows "kept s s'"
  using assms by (auto simp: kept_def)

lemma mine_new_kept:
  assumes "mine_new_block e s = Some r"
  shows "kept s (after r)"
proof (cases "blocks s (current_chain s)")
  case None
  with assms show ?thesis by (auto simp: mine_new_block_def kept_def)
next
  case (Some bs)
  have "\<exists>txs s0. mine_new_block e s = mine_block e (current_chain s) txs s0 \<and>
      wallet s0 = wallet s \<and> uuid_draws s \<le> uuid_draws s0 \<and> bridge_transfers s0 = bridge_transfers s"
    unfolding mine_new_block_def read_now_def draw_uuid_def draw_randint_def Let_def Some
    by (simp only: option.case prod.case) (intro exI conjI, rule refl, simp_all)
  then obtain txs s0 where eq: "mine_new_block e s = mine_block e (current_chain s) txs s0"
    and k: "wallet s0 = wallet s" "uuid_draws s \<le> uuid_draws s0" "bridge_transfers s0 = bridge_transfers s"
    by blast
  from assms eq have "mine_block e (current_chain s) txs s0 = Some r" by simp
  from mine_block_kept[OF this] k show ?thesis by (auto intro: kept_trans_left)
qed

lemma deploy_kept:
  assumes "deploy_smart_contract e name code chain s = Some r"
  shows "kept s (after r)"
proof (cases r)
  case (Returned c s')
  with assms deploy_ReturnedD[of e name code chain s c s'] show ?thesis by (auto simp: kept_def)
next
  case (Raised err s')
  with assms show ?thesis
    apply (simp add: deploy_smart_contract_def read_now_def draw_uuid_def Let_def
        split: option.splits outcome.splits)
     apply (auto simp: kept_def dest!: mine_block_RaisedD)
    done
qed

lemma upload_kept:
  assumes "upload_file_to_blockchain e fl chain s = Some r"
  shows "kept s (after r)"
proof (cases r)
  case (Returned x s')
  obtain rc fl' where x: "x = (rc, fl')" by (cases x)
  with Returned assms upload_ReturnedD[of e fl chain s rc fl' s'] show ?thesis by (auto simp: kept_def)
next
  case (Raised err s')
  with assms show ?thesis
    apply (simp add: upload_file_to_blockchain_def generate_ipfs_hash_def file_read_def
        read_now_def draw_uuid_def Let_def split: option.splits outcome.splits)
     apply (auto simp: kept_def dest!: mine_block_RaisedD)
    done
qed

lemma bridge_kept:
  assumes "bridge_asset e a f t amt s = Some r"
  shows "kept s (after r)"
proof (cases r)
  case (Returned tr s')
  with assms bridge_asset_ReturnedD[of e a f t amt s tr s'] show ?thesis
    by (auto simp: kept_def)
next
  case (Raised err s')
  with assms show ?thesis
    apply (simp add: bridge_asset_def read_now_def draw_uuid_def Let_def
        split: option.splits outcome.splits)
     apply (auto simp: kept_def dest!: mine_block_RaisedD)
    done
qed

lemma step_kept:
  assumes "step e x s = Some s'"
  shows "kept s s'"
proof (cases x)
  case (SelectChain c)
  with assms show ?thesis by (auto simp: select_chain_def kept_def)
next
  case MineNewBlock
  with assms obtain r where "mine_new_block e s = Some r" "s' = after r" by auto
  with mine_new_kept[of e s r] show ?thesis by simp
next
  case (MineBlock chain txs)
  with assms obtain r where "mine_block e chain txs s = Some r" "s' = after r" by auto
  with mine_block_kept[of e chain txs s r] show ?thesis by simp
next
  case (Deploy name code chain)
  with assms obtain r where "deploy_smart_contract e name code chain s = Some r" "s' = after r" by auto
  with deploy_kept[of e name code chain s r] show ?thesis by simp
next
  case (Upload fl chain)
  with assms obtain r where "upload_file_to_blockchain e fl chain s = Some r" "s' = after r" by auto
  with upload_kept[of e fl chain s r] show ?thesis by simp
next
  case (Bridge a f t amt)
  with assms obtain r where "bridge_asset e a f t amt s = Some r" "s' = after r" by auto
  with bridge_kept[of e a f t amt s r] show ?thesis by simp
next
  case RenderBridge
  with assms show ?thesis by (auto simp: render_bridge_def render_transfers_session kept_def)
qed

subsection \<open>Runs\<close>

lemma run_kept:
  "run e xs s = Some s' \<Longrightarrow>
     wallet s' = wallet s \<and> uuid_draws s \<le> uuid_draws s' \<and>
     (\<exists>ts. bridge_transfers s' = bridge_transfers s @ ts)"
proof (induction xs arbitrary: s)
  case Nil
  then show ?case by simp
next
  case (Cons x xs)
  from Cons.prems obtain s1 where st: "step e x s = Some s1" and r: "run e xs s1 = Some s'"
    by (auto split: option.splits)
  from step_kept[OF st] have k: "wallet s1 = wallet s" "uuid_draws s \<le> uuid_draws s1"
    "\<exists>ts. bridge_transfers s1 = bridge_transfers s @ ts"
    by (auto simp: kept_def)
  from Cons.IH[OF r] k show ?case by auto
qed




lemma trace_length: "trace e xs s = Some ss \<Longrightarrow> length ss = length xs + 1"
  by (induction xs arbitrary: s ss) (auto split: option.splits)







subsection \<open>The length of a digest\<close>

lemma length_round_step: "length (round_step hs kw) = length hs"
  by (induction hs kw rule: round_step.induct) (simp_all add: Let_def)

lemma length_foldl_round_step: "length (foldl round_step hs kws) = length hs"
  by (induction kws arbitrary: hs) (simp_all add: length_round_step)

lemma length_compress: "length (compress hs blk) = length hs"
  by (simp add: compress_def length_foldl_round_step)

lemma length_chunks: "length (chunks hs ws) = length hs"
  by (induction hs ws rule: chunks.induct) (simp_all add: length_compress)

lemma length_hexdigest: "length (hexdigest ws) = 8 * length ws"
  by (induction ws) (simp_all add: hexdigest_def hex32_def)

lemma length_calculate_hash: "length (calculate_hash d) = 64"
  by (simp add: calculate_hash_def length_hexdigest sha256_def length_chunks sha_h0_def)

lemma init_wallet_address: "length (address (wallet (init_session_state e))) = 42"
  by (simp add: init_session_state_def generate_genesis_block_def generate_wallet_def
      read_now_def draw_uuid_def Let_def length_calculate_hash)

subsection \<open>Determinism of mining\<close>

lemma mine_block_same_loop:
  assumes "blocks s1 c1 = Some bs1" "bs1 \<noteq> []" "blocks s2 c2 = Some bs2" "bs2 \<noteq> []"
    and "length bs1 = length bs2" "b_hash (last bs1) = b_hash (last bs2)"
    and "isoformat (now e1 (clock_reads s1)) = isoformat (now e2 (clock_reads s2))"
  shows "map_option (\<lambda>b. (nonce b, b_hash b)) (returned (mine_block e1 c1 txs s1)) =
         map_option (\<lambda>b. (nonce b, b_hash b)) (returned (mine_block e2 c2 txs s2))"
    and "mine_block e1 c1 txs s1 = None \<longleftrightarrow> mine_block e2 c2 txs s2 = None"
  using assms
  by (auto simp: mine_block_eq[of s1 c1 bs1] mine_block_eq[of s2 c2 bs2] split: option.splits)

subsection \<open>A transfer along a run\<close>







subsection \<open>When an upload returns\<close>

lemma upload_as_mine_block:
  assumes "blocks s chain = Some bs"
  shows "\<exists>tx s7 rc fl1.
     upload_file_to_blockchain e fl chain s =
       (case mine_block e chain [tx] s7 of
          None \<Rightarrow> None
        | Some (Returned b s8) \<Rightarrow> Some (Returned (rc, fl1) s8)
        | Some (Raised err s8) \<Rightarrow> Some (Raised err s8)) \<and>
     blocks s7 = blocks s \<and> clock_reads s7 = clock_reads s + 2 \<and>
     tx_type tx = ''File Upload'' \<and> tx_blockchain tx = chain \<and> gas_used tx = 50000"
  unfolding upload_file_to_blockchain_def generate_ipfs_hash_def file_read_def
    read_now_def draw_uuid_def Let_def
  apply (simp only: prod.case)
  apply (intro exI conjI)
       apply (simp add: assms)
      apply (simp_all add: assms)
  done

lemma upload_returns_iff:
  assumes "blocks s chain = Some bs" "bs \<noteq> []"
  shows "\<exists>tx. tx_type tx = ''File Upload'' \<and> tx_blockchain tx = chain \<and> gas_used tx = 50000 \<and>
     (returned (upload_file_to_blockchain e fl chain s) \<noteq> None \<longleftrightarrow>
        (\<exists>n. valid_nonce (length bs) (isoformat (now e (clock_reads s + 2))) [tx] (b_hash (last bs)) n)) \<and>
     (upload_file_to_blockchain e fl chain s = None \<longleftrightarrow>
        (\<forall>n. \<not> valid_nonce (length bs) (isoformat (now e (clock_reads s + 2))) [tx] (b_hash (last bs)) n)) \<and>
     raised (upload_file_to_blockchain e fl chain s) = None"
proof -
  from upload_as_mine_block[OF assms(1), of e fl] obtain tx s7 rc fl1 where
    eq: "upload_file_to_blockchain e fl chain s =
       (case mine_block e chain [tx] s7 of
          None \<Rightarrow> None
        | Some (Returned b s8) \<Rightarrow> Some (Returned (rc, fl1) s8)
        | Some (Raised err s8) \<Rightarrow> Some (Raised err s8))"
    and b: "blocks s7 = blocks s" and c: "clock_reads s7 = clock_reads s + 2"
    and t: "tx_type tx = ''File Upload''" "tx_blockchain tx = chain" "gas_used tx = 50000"
    by blast
  from b assms(1) have b7: "blocks s7 chain = Some bs" by simp
  let ?ml = "mine_loop (length bs) (isoformat (now e (clock_reads s + 2))) [tx] (b_hash (last bs)) 0"
  have mb: "mine_block e chain [tx] s7 =
    (case ?ml of None \<Rightarrow> None
     | Some (h, n) \<Rightarrow>
         Some (Returned
           \<lparr>b_index = length bs, b_timestamp = isoformat (now e (clock_reads s7)),
            b_transactions = [tx], previous_hash = b_hash (last bs), b_hash = h, nonce = n,
            miner = take 10 (address (wallet s7)) @ ''...''\<rparr>
           (s7\<lparr>clock_reads := clock_reads s7 + 1,
              blocks := (blocks s7)(chain \<mapsto> bs @
                [\<lparr>b_index = length bs, b_timestamp = isoformat (now e (clock_reads s7)),
                  b_transactions = [tx], previous_hash = b_hash (last bs), b_hash = h, nonce = n,
                  miner = take 10 (address (wallet s7)) @ ''...''\<rparr>])\<rparr>)))"
    using mine_block_eq[OF b7 assms(2), of e "[tx]"] by (simp add: c)
  have n: "?ml = None \<longleftrightarrow>
      (\<forall>n. \<not> valid_nonce (length bs) (isoformat (now e (clock_reads s + 2))) [tx] (b_hash (last bs)) n)"
    by (rule mine_loop_None)
  have 1: "upload_file_to_blockchain e fl chain s = None \<longleftrightarrow> ?ml = None"
    by (simp add: eq mb split: option.splits)
  have 2: "returned (upload_file_to_blockchain e fl chain s) \<noteq> None \<longleftrightarrow> ?ml \<noteq> None"
    by (simp add: eq mb split: option.splits)
  have 3: "raised (upload_file_to_blockchain e fl chain s) = None"
    by (simp add: eq mb split: option.splits)
  have u1: "upload_file_to_blockchain e fl chain s = None \<longleftrightarrow>
      (\<forall>n. \<not> valid_nonce (length bs) (isoformat (now e (clock_reads s + 2))) [tx] (b_hash (last bs)) n)"
    using 1 n by (rule trans)
  have "?ml \<noteq> None \<longleftrightarrow>
      (\<exists>n. valid_nonce (length bs) (isoformat (now e (clock_reads s + 2))) [tx] (b_hash (last bs)) n)"
    unfolding n by blast
  with 2 have u2: "returned (upload_file_to_blockchain e fl chain s) \<noteq> None \<longleftrightarrow>
      (\<exists>n. valid_nonce (length bs) (isoformat (now e (clock_reads s + 2))) [tx] (b_hash (last bs)) n)"
    by (rule trans)
  show ?thesis
    by (intro exI[of _ tx] conjI) (rule t u1 u2 3)+
qed

lemma upload_unknown_chain:
  assumes "blocks s chain = None"
  shows "\<exists>s'. upload_file_to_blockchain e fl chain s = Some (Raised KeyError s') \<and>
     length (files s') = length (files s) + 1 \<and>
     transactions s' = transactions s \<and> blocks s' = blocks s"
  using assms
  by (simp add: upload_file_to_blockchain_def generate_ipfs_hash_def file_read_def
      read_now_def draw_uuid_def Let_def)

subsection \<open>Evaluation of the concrete calls\<close>

lemmas text_eval = str_nat.simps str_int_def digit_char_def zfill_def isoformat_def
  isoformat_sep_def str_datetime_def repr_str_def repr_char_def printable_def hex_digit_def
  repr_tx_def repr_dict_def repr_list_def block_data_def replicate_eval

lemmas session_eval = session0_def init_session_state_def generate_genesis_block_def
  generate_wallet_def generate_ipfs_hash_def read_now_def draw_uuid_def draw_randint_def
  empty_session_def env0_def clock0_def uuids0_def Let_def

lemmas call_eval = read_now_def draw_uuid_def draw_randint_def generate_ipfs_hash_def
  env0_def clock0_def uuids0_def Let_def

lemma session0_eval:
  "session0 =
     \<lparr>blocks =
        [''besu'' \<mapsto> [\<lparr>b_index = 0, b_timestamp = ''2025-01-15T10:30:00.120001'',
            b_transactions = [], previous_hash = ''0'',
            b_hash = ''98916f6738b4eea5d839caca617eca5962ec2c8009f785fdcd0d04d18471f002'',
            nonce = 0, miner = ''System''\<rparr>],
         ''fabric'' \<mapsto> [\<lparr>b_index = 0, b_timestamp = ''2025-01-15T10:30:01.120002'',
            b_transactions = [], previous_hash = ''0'',
            b_hash = ''fa95d9f08696ef76d6e7a22021c10c4ec0e41a4ea53e025abb9238043a6b2294'',
            nonce = 0, miner = ''System''\<rparr>],
         ''corda'' \<mapsto> [\<lparr>b_index = 0, b_timestamp = ''2025-01-15T10:30:02.120003'',
            b_transactions = [], previous_hash = ''0'',
            b_hash = calculate_hash ''Genesis Block corda'',
            nonce = 0, miner = ''System''\<rparr>]],
      transactions = [], smart_contracts = [], files = [], current_chain = ''besu'',
      wallet = \<lparr>address = ''0x3f60c6d52d2ee1fcdec8d315e543582f79a39c97'',
                 balance = 1000000, w_transactions = 0\<rparr>,
      mining = False, bridge_transfers = [], clock_reads = 3, uuid_draws = 1, rand_draws = 0\<rparr>"
  by (simp add: session_eval split_def text_eval hash_facts)

lemma mine_loop_mined0:
  "mine_loop (Suc 0) ''2025-01-15T10:30:03.002293'' []
     ''98916f6738b4eea5d839caca617eca5962ec2c8009f785fdcd0d04d18471f002'' 0 =
   Some (''0000c5664337ceeb7ec373ef74ff21b983575047dfc1eaf003d20b9d6e85cd58'', 2)"
  by (simp add: mine_loop.simps text_eval hash_facts)

lemma mined0_eval: "mined0 = Some (Returned block1 session1)"
  by (simp add: mined0_def mine_block_def session1_def block1_def session0_eval call_eval text_eval
      mine_loop_mined0 cong: let_weak_cong prod.case_cong_weak)

lemma mined0'_eval: "mined0' = Some (Returned block1' session1')"
  by (simp add: mined0'_def mine_block_def session1'_def block1'_def session0'_def session0_eval
      call_eval text_eval mine_loop_mined0 cong: let_weak_cong prod.case_cong_weak)

lemma mine_loop_bridged0:
  "mine_loop (Suc 0) ''2025-01-15T10:30:05.089052'' [lock_tx0]
     ''98916f6738b4eea5d839caca617eca5962ec2c8009f785fdcd0d04d18471f002'' 0 =
   Some (''0000f3da64c582260bf3ce60521729234be1b44f44dedaef826318a22d13502b'', 0)"
  by (simp add: mine_loop.simps Let_def lock_tx0_def text_eval hash_facts)

lemma bridged0_eval: "bridged0 = Some (Returned transfer0 session_bridged0)"
  by (simp add: bridged0_def bridge_asset_def mine_block_def session_bridged0_def transfer0_def
      block_bridged0_def lock_tx0_def session0_eval call_eval text_eval hash_facts
      mine_loop_bridged0[unfolded lock_tx0_def One_nat_def] cong: let_weak_cong prod.case_cong_weak)

lemma mine_loop_bridged_same:
  "mine_loop (Suc 0) ''2025-01-15T10:30:05.089052'' [lock_tx_same]
     ''98916f6738b4eea5d839caca617eca5962ec2c8009f785fdcd0d04d18471f002'' 0 =
   Some (''00008eb061bfee43047e6dcb227496f800c66cfb5f40a0e18397df0f150e50eb'', 0)"
  by (simp add: mine_loop.simps Let_def lock_tx_same_def text_eval hash_facts)

lemma bridged_same_eval: "bridged_same = Some (Returned transfer_same session_bridged_same)"
  by (simp add: bridged_same_def bridge_asset_def mine_block_def session_bridged_same_def
      transfer_same_def block_bridged_same_def lock_tx_same_def session0_eval call_eval text_eval
      hash_facts mine_loop_bridged_same[unfolded lock_tx_same_def One_nat_def] cong: let_weak_cong prod.case_cong_weak)

lemma mine_loop_deployed:
  "mine_loop (Suc 0) ''2025-01-15T10:30:06.165094'' [deploy_tx]
     ''fa95d9f08696ef76d6e7a22021c10c4ec0e41a4ea53e025abb9238043a6b2294'' 0 =
   Some (''00002dd241548e9f79d746e17e7b550bcb5e59d7062be542a9f606d775a04330'', 0)"
  by (simp add: mine_loop.simps Let_def deploy_tx_def text_eval hash_facts)

lemma deployed_fabric_eval: "deployed_fabric = Some (Returned contract_fabric session_deployed)"
  by (simp add: deployed_fabric_def deploy_smart_contract_def mine_block_def session_deployed_def
      contract_fabric_def block_deployed_def deploy_tx_def session0_eval call_eval text_eval
      hash_facts mine_loop_deployed[unfolded deploy_tx_def One_nat_def] cong: let_weak_cong prod.case_cong_weak)

lemma mine_loop_uploaded1:
  "mine_loop (Suc 0) ''2025-01-15T10:30:05.089052'' [upload_tx1]
     ''98916f6738b4eea5d839caca617eca5962ec2c8009f785fdcd0d04d18471f002'' 0 =
   Some (''0000a22e4f5f29210d63aaf5188550aa3c7b2c238d6c352ee84f48ee942df237'', 0)"
  by (simp add: mine_loop.simps Let_def upload_tx1_def text_eval hash_facts)

lemma uploaded1_eval: "uploaded1 = Some (Returned (file_record1, hello_read) session_uploaded1)"
  by (simp add: uploaded1_def upload_file_to_blockchain_def file_read_def hello_def hello_read_def
      mine_block_def session_uploaded1_def file_record1_def block_uploaded1_def upload_tx1_def
      session0_eval call_eval text_eval hash_facts mine_loop_uploaded1[unfolded upload_tx1_def One_nat_def]
      cong: let_weak_cong prod.case_cong_weak)

lemma mine_loop_uploaded2:
  "mine_loop (Suc 0) ''2025-01-15T10:30:08.043700'' [upload_tx2]
     ''fa95d9f08696ef76d6e7a22021c10c4ec0e41a4ea53e025abb9238043a6b2294'' 0 =
   Some (''00001cb152598120de6f303a83ea6c7eaa493f9bdd438d2aabdea83e22686e42'', 0)"
  by (simp add: mine_loop.simps Let_def upload_tx2_def text_eval hash_facts)

lemma uploaded2_eval: "uploaded2 = Some (Returned (file_record2, hello_read) session_uploaded2)"
  by (simp add: uploaded2_def uploaded1_eval upload_file_to_blockchain_def file_read_def hello_def
      hello_read_def mine_block_def session_uploaded2_def session_uploaded1_def file_record1_def
      file_record2_def block_uploaded1_def block_uploaded2_def upload_tx1_def upload_tx2_def
      session0_eval call_eval text_eval hash_facts mine_loop_uploaded2[unfolded upload_tx2_def One_nat_def]
      cong: let_weak_cong prod.case_cong_weak)

lemmas call_eval1 = read_now_def draw_uuid_def draw_randint_def generate_ipfs_hash_def
  env1_def clock0_def uuids0_def Let_def

lemma init_env1: "init_session_state env1 = session0"
  unfolding session0_eval
  by (simp add: init_session_state_def generate_genesis_block_def generate_wallet_def
      empty_session_def call_eval1 split_def text_eval hash_facts)

lemma mine_loop_anchored_a:
  "mine_loop (Suc 0) ''2025-01-15T10:30:05.089052'' [upload_tx_a]
     ''98916f6738b4eea5d839caca617eca5962ec2c8009f785fdcd0d04d18471f002'' 0 =
   Some (''0000255b7e73af57967668cb2ed5d989b87c75d1596c727f9ce74015174d3eeb'', 0)"
  by (simp add: mine_loop.simps Let_def upload_tx_a_def text_eval hash_facts)

lemma anchored_a_call: "anchored_a = upload_file_to_blockchain env1 copy_a ''besu'' session0"
  by (simp add: anchored_a_def init_env1)

lemma anchored_a_eval: "anchored_a = Some (Returned (file_record_a, copy_a_read) session_anchored_a)"
  unfolding anchored_a_call
  by (simp add: upload_file_to_blockchain_def file_read_def copy_a_def
      copy_a_read_def mine_block_def session_anchored_a_def file_record_a_def block_anchored_a_def
      upload_tx_a_def session0_eval call_eval1 text_eval hash_facts
      mine_loop_anchored_a[unfolded upload_tx_a_def One_nat_def]
      cong: let_weak_cong prod.case_cong_weak)

lemma mine_loop_anchored_b:
  "mine_loop (Suc 0) ''2025-01-15T10:30:08.043700'' [upload_tx_b]
     ''fa95d9f08696ef76d6e7a22021c10c4ec0e41a4ea53e025abb9238043a6b2294'' 0 =
   Some (''0000464db811e5a073d42842cd33f42d0af34be3aeb123470c7053ec4104baff'', 0)"
  by (simp add: mine_loop.simps Let_def upload_tx_b_def text_eval hash_facts)

lemma anchored_b_call:
  "anchored_b = upload_file_to_blockchain env1 copy_b ''fabric'' session_anchored_a"
  by (simp add: anchored_b_def anchored_a_eval)

lemma anchored_b_eval: "anchored_b = Some (Returned (file_record_b, copy_b_read) session_anchored_b)"
  unfolding anchored_b_call
  by (simp add: upload_file_to_blockchain_def file_read_def copy_b_def
      copy_b_read_def mine_block_def session_anchored_b_def session_anchored_a_def
      file_record_a_def file_record_b_def block_anchored_a_def block_anchored_b_def
      upload_tx_a_def upload_tx_b_def session0_eval call_eval1 text_eval hash_facts
      mine_loop_anchored_b[unfolded upload_tx_b_def One_nat_def]
      cong: let_weak_cong prod.case_cong_weak)

subsection \<open>The concrete calls, as calls\<close>

lemma mined0_call: "mine_block env0 ''besu'' [] session0 = Some (Returned block1 session1)"
  using mined0_eval by (simp add: mined0_def)

lemma besu_chain0: "blocks session0 ''besu'' = Some [genesis_besu]"
  by (simp add: session0_eval genesis_besu_def)

lemma timestamp3: "isoformat (now env0 (clock_reads session0)) = ''2025-01-15T10:30:03.002293''"
  by (simp add: session0_eval call_eval text_eval)

lemma distinct_draws:
  assumes "distinct (map f [0..<n])" "i < j" "j < n"
  shows "f i \<noteq> f j"
proof
  assume e: "f i = f j"
  have l: "i < length (map f [0..<n])" "j < length (map f [0..<n])" using assms(2,3) by simp_all
  have "(map f [0..<n] ! i = map f [0..<n] ! j) = (i = j)"
    using assms(1) l by (rule nth_eq_iff_index_eq)
  moreover have "map f [0..<n] ! i = f i" "map f [0..<n] ! j = f j" using assms(2,3) by simp_all
  ultimately have "i = j" using e by simp
  with assms(2) show False by simp
qed

lemma trace_renders: "\<exists>ss. trace e (replicate n RenderBridge) s = Some ss"
  by (induction n arbitrary: s) (auto split: option.splits)

section \<open>The properties of the specification\<close>

text \<open>
  C1. In every network's chain the block at position 0 has index 0 and previous hash
  \<^verbatim>\<open>"0"\<close>, and every block at a position \<open>i > 0\<close> has index \<open>i\<close> and, as its previous
  hash, the hash of the block at position \<open>i - 1\<close> (\<open>chain_linked\<close>). This holds of the
  three chains of a fresh session, each of which is a single genesis block; it is
  preserved by every block that \<^verbatim>\<open>mine_block\<close> appends; and it holds of every
  session reached from a fresh one by the operations of the pages.
\<close>

theorem chain_linkage:
  "chains_linked (init_session_state e) \<and>
   (\<forall>c bs. blocks (init_session_state e) c = Some bs \<longrightarrow> length bs = 1) \<and>
   (chains_linked s \<and> mine_block e chain txs s = Some (Returned b s') \<longrightarrow> chains_linked s') \<and>
   (run e xs (init_session_state e) = Some s'' \<longrightarrow> chains_linked s'')"
proof (intro conjI allI impI)
  show "chains_linked (init_session_state e)" by (rule init_linked)
next
  fix c bs assume "blocks (init_session_state e) c = Some bs"
  from init_blocks[OF this] show "length bs = 1" by auto
next
  assume "chains_linked s \<and> mine_block e chain txs s = Some (Returned b s')"
  then show "chains_linked s'" using mine_block_linked by blast
next
  assume "run e xs (init_session_state e) = Some s''"
  with init_linked show "chains_linked s''" by (rule run_linked)
qed

theorem chain_linkage_witness:
  "chains_linked session0 \<and>
   mine_block env0 ''besu'' [] session0 = Some (Returned block1 session1) \<and>
   run env0 [MineBlock ''besu'' []] session0 = Some session1 \<and>
   chains_linked session1 \<and>
   map_option length (blocks session1 ''besu'') = Some 2 \<and>
   map_option (\<lambda>bs. previous_hash (bs ! 1) = b_hash (bs ! 0)) (blocks session1 ''besu'') = Some True"
proof -
  have m: "mine_block env0 ''besu'' [] session0 = Some (Returned block1 session1)"
    by (rule mined0_call)
  have r: "run env0 [MineBlock ''besu'' []] (init_session_state env0) = Some session1"
    using m by (simp add: session0_def)
  from chain_linkage[of env0 session0 "''besu''" "[]" block1 session1 "[MineBlock ''besu'' []]" session1]
  have "chains_linked session0" and "chains_linked session1"
    using m r by (simp_all add: session0_def)
  moreover have "map_option length (blocks session1 ''besu'') = Some 2"
    by (simp add: session1_def session0_eval)
  moreover have "map_option (\<lambda>bs. previous_hash (bs ! 1) = b_hash (bs ! 0)) (blocks session1 ''besu'') = Some True"
    by (simp add: session1_def block1_def session0_eval)
  ultimately show ?thesis using m r by (simp add: session0_def)
qed

text \<open>
  C2, as the code has it. Every block that \<^verbatim>\<open>mine_block\<close> returns carries, as its hash,
  the digest recomputed from its own index, timestamp, transactions, previous hash and
  nonce, and that digest starts with \<^verbatim>\<open>0000\<close> (\<open>proof_of_work\<close>). In every session
  reached from a fresh one, every block at a position \<open>i > 0\<close> of every chain has this
  property, and the block at position 0 carries the digest of the text
  \<^verbatim>\<open>Genesis Block \<close> followed by the network's key (\<open>chains_proved\<close>). The genesis block
  is not covered by the property of the mined blocks, as the counterexample shows.
\<close>

theorem mined_blocks_proof_of_work:
  "(mine_block e chain txs s = Some (Returned b s') \<longrightarrow> proof_of_work b) \<and>
   (run e xs (init_session_state e) = Some s'' \<longrightarrow> chains_proved s'')"
proof (intro conjI impI)
  assume "mine_block e chain txs s = Some (Returned b s')"
  then show "proof_of_work b" by (rule mine_block_proof_of_work)
next
  assume "run e xs (init_session_state e) = Some s''"
  with init_proved show "chains_proved s''" by (rule run_proved)
qed

theorem mined_blocks_proof_of_work_witness:
  "mine_block env0 ''besu'' [] session0 = Some (Returned block1 session1) \<and>
   proof_of_work block1 \<and>
   b_hash block1 = ''0000c5664337ceeb7ec373ef74ff21b983575047dfc1eaf003d20b9d6e85cd58'' \<and>
   run env0 [MineBlock ''besu'' []] session0 = Some session1 \<and>
   chains_proved session1"
proof -
  have m: "mine_block env0 ''besu'' [] session0 = Some (Returned block1 session1)"
    by (rule mined0_call)
  have r: "run env0 [MineBlock ''besu'' []] (init_session_state env0) = Some session1"
    using m by (simp add: session0_def)
  from mined_blocks_proof_of_work[of env0 "''besu''" "[]" session0 block1 session1
      "[MineBlock ''besu'' []]" session1]
  have "proof_of_work block1" and "chains_proved session1"
    using m r by simp_all
  then show ?thesis using m r by (simp add: session0_def block1_def)
qed

text \<open>
  The genesis block of the EVM chain of the fresh session of the concrete environment:
  its stored hash is the digest of \<^verbatim>\<open>Genesis Block besu\<close>, which is not the digest
  recomputed from its fields and does not start with \<^verbatim>\<open>0000\<close>.
\<close>

theorem genesis_without_proof_of_work:
  "blocks session0 ''besu'' = Some [genesis_besu] \<and>
   b_hash genesis_besu = ''98916f6738b4eea5d839caca617eca5962ec2c8009f785fdcd0d04d18471f002'' \<and>
   recomputed_hash genesis_besu =
     ''1cf812ff2833893ea203b58f5416ac02584e8dbc56226dc8f90391016dc0446b'' \<and>
   b_hash genesis_besu \<noteq> recomputed_hash genesis_besu \<and>
   \<not> meets_difficulty (b_hash genesis_besu) \<and>
   \<not> proof_of_work genesis_besu"
proof -
  have r: "recomputed_hash genesis_besu =
     ''1cf812ff2833893ea203b58f5416ac02584e8dbc56226dc8f90391016dc0446b''"
    by (simp add: recomputed_hash_def genesis_besu_def text_eval hash_facts)
  have d: "\<not> meets_difficulty (b_hash genesis_besu)"
    by (simp add: meets_difficulty_def genesis_besu_def)
  show ?thesis using besu_chain0 d
    by (simp add: r proof_of_work_def) (simp add: genesis_besu_def)
qed

text \<open>
  C3. Where the chain is present and not empty, \<^verbatim>\<open>mine_block\<close> returns a block whose
  nonce is the least natural number for which the digest of the text made of index,
  timestamp, transactions, previous hash and nonce starts with \<^verbatim>\<open>0000\<close>, and whose
  hash is that digest: the nonce is accepted, no smaller one is, and the hash is the
  digest for it. The call returns whenever some nonce is accepted, with a nonce that
  is not larger; where no nonce is accepted the loop never ends.
\<close>

theorem mined_nonce_least:
  assumes "blocks s chain = Some bs" and "bs \<noteq> []"
  shows "(\<forall>b s'. mine_block e chain txs s = Some (Returned b s') \<longrightarrow>
            valid_nonce (length bs) (isoformat (now e (clock_reads s))) txs (b_hash (last bs)) (nonce b) \<and>
            (\<forall>m < nonce b. \<not> valid_nonce (length bs) (isoformat (now e (clock_reads s))) txs
                (b_hash (last bs)) m) \<and>
            b_hash b = calculate_hash (block_data (length bs) (isoformat (now e (clock_reads s))) txs
                (b_hash (last bs)) (nonce b))) \<and>
         (\<forall>n. valid_nonce (length bs) (isoformat (now e (clock_reads s))) txs (b_hash (last bs)) n \<longrightarrow>
            (\<exists>b s'. mine_block e chain txs s = Some (Returned b s') \<and> nonce b \<le> n)) \<and>
         ((\<forall>n. \<not> valid_nonce (length bs) (isoformat (now e (clock_reads s))) txs (b_hash (last bs)) n) \<longrightarrow>
            mine_block e chain txs s = None)"
proof -
  let ?i = "length bs" and ?t = "isoformat (now e (clock_reads s))" and ?p = "b_hash (last bs)"
  have 1: "valid_nonce ?i ?t txs ?p (nonce b) \<and> (\<forall>m < nonce b. \<not> valid_nonce ?i ?t txs ?p m) \<and>
      b_hash b = calculate_hash (block_data ?i ?t txs ?p (nonce b))"
    if r: "mine_block e chain txs s = Some (Returned b s')" for b s'
  proof -
    from r obtain bs' where
      bs': "blocks s chain = Some bs'" and ne: "bs' \<noteq> []"
      and ml: "mine_loop (length bs') (isoformat (now e (clock_reads s))) txs (b_hash (last bs')) 0 =
             Some (b_hash b, nonce b)"
      and f: "b_index b = length bs'" "b_timestamp b = isoformat (now e (clock_reads s))"
         "b_transactions b = txs" "previous_hash b = b_hash (last bs')"
      and mn: "miner b = take 10 (address (wallet s)) @ ''...''"
      and s': "s' = s\<lparr>clock_reads := clock_reads s + 1, blocks := (blocks s)(chain \<mapsto> bs' @ [b])\<rparr>"
      by (rule mine_block_ReturnedE)
    from bs' assms(1) have eq: "bs' = bs" by simp
    from mine_loop_sound[OF ml] eq show ?thesis by simp
  qed
  have 2: "\<exists>b s'. mine_block e chain txs s = Some (Returned b s') \<and> nonce b \<le> n"
    if v: "valid_nonce ?i ?t txs ?p n" for n
  proof -
    from mine_loop_returns[OF v] obtain h k where
      ml: "mine_loop ?i ?t txs ?p 0 = Some (h, k)"
      by blast
    from mine_loop_sound[OF ml] v have "k \<le> n" by (cases "k \<le> n") auto
    moreover from ml have "\<exists>b s'. mine_block e chain txs s = Some (Returned b s') \<and> nonce b = k"
      by (simp add: mine_block_eq[OF assms])
    ultimately show ?thesis by auto
  qed
  have 3: "mine_block e chain txs s = None" if n: "\<forall>n. \<not> valid_nonce ?i ?t txs ?p n"
  proof -
    from n have "mine_loop ?i ?t txs ?p 0 = None" by (simp add: mine_loop_None)
    then show ?thesis by (simp add: mine_block_eq[OF assms])
  qed
  show ?thesis
  proof (intro conjI)
    show "\<forall>b s'. mine_block e chain txs s = Some (Returned b s') \<longrightarrow>
            valid_nonce ?i ?t txs ?p (nonce b) \<and> (\<forall>m < nonce b. \<not> valid_nonce ?i ?t txs ?p m) \<and>
            b_hash b = calculate_hash (block_data ?i ?t txs ?p (nonce b))"
      using 1 by blast
    show "\<forall>n. valid_nonce ?i ?t txs ?p n \<longrightarrow>
            (\<exists>b s'. mine_block e chain txs s = Some (Returned b s') \<and> nonce b \<le> n)"
      using 2 by blast
    show "(\<forall>n. \<not> valid_nonce ?i ?t txs ?p n) \<longrightarrow> mine_block e chain txs s = None"
      using 3 by blast
  qed
qed

theorem mined_nonce_least_witness:
  "blocks session0 ''besu'' = Some [genesis_besu] \<and>
   mine_block env0 ''besu'' [] session0 = Some (Returned block1 session1) \<and>
   nonce block1 = 2 \<and>
   valid_nonce 1 ''2025-01-15T10:30:03.002293'' [] (b_hash genesis_besu) 2 \<and>
   \<not> valid_nonce 1 ''2025-01-15T10:30:03.002293'' [] (b_hash genesis_besu) 0 \<and>
   \<not> valid_nonce 1 ''2025-01-15T10:30:03.002293'' [] (b_hash genesis_besu) 1 \<and>
   b_hash block1 =
     calculate_hash (block_data 1 ''2025-01-15T10:30:03.002293'' [] (b_hash genesis_besu) 2)"
proof -
  have ne: "[genesis_besu] \<noteq> []" by simp
  have n: "nonce block1 = 2" by (simp add: block1_def)
  from mined_nonce_least[OF besu_chain0 ne, of env0 "[]"] mined0_call
  have "valid_nonce 1 ''2025-01-15T10:30:03.002293'' [] (b_hash genesis_besu) (nonce block1) \<and>
        (\<forall>m < nonce block1. \<not> valid_nonce 1 ''2025-01-15T10:30:03.002293'' [] (b_hash genesis_besu) m) \<and>
        b_hash block1 = calculate_hash
          (block_data 1 ''2025-01-15T10:30:03.002293'' [] (b_hash genesis_besu) (nonce block1))"
    by (simp add: timestamp3)
  then show ?thesis using besu_chain0 mined0_call by (simp add: n)
qed

text \<open>
  C4. Mining is deterministic. Two calls of \<^verbatim>\<open>mine_block\<close>, in any two sessions and
  environments, on chains of the same length whose last blocks have the same hash, at
  the same timestamp and with the same transactions, either both return, with the same
  nonce and the same hash, or both never return.
\<close>

theorem mining_deterministic:
  assumes "blocks s1 c1 = Some bs1" and "bs1 \<noteq> []"
    and "blocks s2 c2 = Some bs2" and "bs2 \<noteq> []"
    and "length bs1 = length bs2" and "b_hash (last bs1) = b_hash (last bs2)"
    and "isoformat (now e1 (clock_reads s1)) = isoformat (now e2 (clock_reads s2))"
  shows "map_option (\<lambda>b. (nonce b, b_hash b)) (returned (mine_block e1 c1 txs s1)) =
         map_option (\<lambda>b. (nonce b, b_hash b)) (returned (mine_block e2 c2 txs s2)) \<and>
         (mine_block e1 c1 txs s1 = None \<longleftrightarrow> mine_block e2 c2 txs s2 = None) \<and>
         raised (mine_block e1 c1 txs s1) = None \<and> raised (mine_block e2 c2 txs s2) = None"
proof (intro conjI)
  show "map_option (\<lambda>b. (nonce b, b_hash b)) (returned (mine_block e1 c1 txs s1)) =
         map_option (\<lambda>b. (nonce b, b_hash b)) (returned (mine_block e2 c2 txs s2))"
    using assms by (rule mine_block_same_loop(1))
  show "mine_block e1 c1 txs s1 = None \<longleftrightarrow> mine_block e2 c2 txs s2 = None"
    using assms by (rule mine_block_same_loop(2))
  show "raised (mine_block e1 c1 txs s1) = None"
    by (simp add: mine_block_eq[OF assms(1,2)] split: option.splits)
  show "raised (mine_block e2 c2 txs s2) = None"
    by (simp add: mine_block_eq[OF assms(3,4)] split: option.splits)
qed

theorem mining_deterministic_witness:
  "wallet session0 \<noteq> wallet session0' \<and> current_chain session0 \<noteq> current_chain session0' \<and>
   map_option (\<lambda>b. (nonce b, b_hash b)) (returned mined0) =
     Some (2, ''0000c5664337ceeb7ec373ef74ff21b983575047dfc1eaf003d20b9d6e85cd58'') \<and>
   map_option (\<lambda>b. (nonce b, b_hash b)) (returned mined0') =
     Some (2, ''0000c5664337ceeb7ec373ef74ff21b983575047dfc1eaf003d20b9d6e85cd58'') \<and>
   map_option miner (returned mined0) \<noteq> map_option miner (returned mined0')"
proof -
  have b': "blocks session0' ''besu'' = Some [genesis_besu]"
    using besu_chain0 by (simp add: session0'_def)
  have ne: "[genesis_besu] \<noteq> []" by simp
  have t: "isoformat (now env0 (clock_reads session0)) = isoformat (now env0 (clock_reads session0'))"
    by (simp add: session0'_def)
  from mining_deterministic[OF besu_chain0 ne b' ne refl refl t, of "[]"]
  have "map_option (\<lambda>b. (nonce b, b_hash b)) (returned mined0) =
        map_option (\<lambda>b. (nonce b, b_hash b)) (returned mined0')"
    by (simp add: mined0_def mined0'_def)
  moreover have "map_option (\<lambda>b. (nonce b, b_hash b)) (returned mined0) =
     Some (2, ''0000c5664337ceeb7ec373ef74ff21b983575047dfc1eaf003d20b9d6e85cd58'')"
    by (simp add: mined0_eval block1_def)
  moreover have "map_option miner (returned mined0) \<noteq> map_option miner (returned mined0')"
    by (simp add: mined0_eval mined0'_eval block1_def block1'_def)
  moreover have "wallet session0 \<noteq> wallet session0'" "current_chain session0 \<noteq> current_chain session0'"
    by (simp_all add: session0'_def session0_eval)
  ultimately show ?thesis by simp
qed

text \<open>
  C5, as the code has it. \<^verbatim>\<open>deploy_smart_contract\<close> does not look at the kind of the
  network; only the deployment page restricts the choice to the EVM chain. For every
  network key whose chain is present and not empty the call raises nothing. When it
  returns, the contract it returns is registered for that network, one
  \<^verbatim>\<open>Contract Deployment\<close> transaction with \<^verbatim>\<open>gas_used\<close> 2100000 is recorded for it, and one
  block holding that transaction is appended to the network's chain. For a key that
  has no chain the call raises \<^verbatim>\<open>KeyError\<close>, after the contract was registered: the
  list of contracts is one longer, the transactions and the chains are as before.
\<close>

theorem deploy_on_any_network:
  "(blocks s chain = Some bs \<and> bs \<noteq> [] \<longrightarrow>
      raised (deploy_smart_contract e name code chain s) = None) \<and>
   (deploy_smart_contract e name code chain s = Some (Returned c s') \<longrightarrow>
      sc_name c = name \<and> sc_blockchain c = chain \<and>
      smart_contracts s' = smart_contracts s @ [c] \<and>
      (\<exists>bs tx b. blocks s chain = Some bs \<and>
         transactions s' = transactions s @ [tx] \<and> tx_type tx = ''Contract Deployment'' \<and>
         gas_used tx = 2100000 \<and> tx_blockchain tx = chain \<and>
         blocks s' = (blocks s)(chain \<mapsto> bs @ [b]) \<and> b_transactions b = [tx])) \<and>
   (blocks s chain = None \<longrightarrow>
      raised (deploy_smart_contract e name code chain s) = Some KeyError \<and>
      map_option (\<lambda>s'. (length (smart_contracts s'), transactions s', blocks s'))
        (left (deploy_smart_contract e name code chain s)) =
      Some (length (smart_contracts s) + 1, transactions s, blocks s)) \<and>
   deploy_options = [''besu'']"
proof (intro conjI impI)
  assume a: "blocks s chain = Some bs \<and> bs \<noteq> []"
  show "raised (deploy_smart_contract e name code chain s) = None"
  proof (cases "deploy_smart_contract e name code chain s")
    case None
    then show ?thesis by simp
  next
    case (Some r)
    show ?thesis
    proof (cases r)
      case (Returned c0 s0)
      with Some show ?thesis by simp
    next
      case (Raised err s0)
      with Some deploy_RaisedD[of e name code chain s err s0] a show ?thesis by auto
    qed
  qed
next
  assume r: "deploy_smart_contract e name code chain s = Some (Returned c s')"
  from deploy_ReturnedD[OF r]
  show "sc_name c = name" and "sc_blockchain c = chain"
    and "smart_contracts s' = smart_contracts s @ [c]"
    and "\<exists>bs tx b. blocks s chain = Some bs \<and>
         transactions s' = transactions s @ [tx] \<and> tx_type tx = ''Contract Deployment'' \<and>
         gas_used tx = 2100000 \<and> tx_blockchain tx = chain \<and>
         blocks s' = (blocks s)(chain \<mapsto> bs @ [b]) \<and> b_transactions b = [tx]"
    by blast+
next
  assume n: "blocks s chain = None"
  from deploy_unknown_chain[OF n, of e name code]
  obtain s0 where d: "deploy_smart_contract e name code chain s = Some (Raised KeyError s0)"
    and k: "length (smart_contracts s0) = length (smart_contracts s) + 1"
      "transactions s0 = transactions s" "blocks s0 = blocks s"
    by blast
  show "raised (deploy_smart_contract e name code chain s) = Some KeyError" by (simp add: d)
  show "map_option (\<lambda>s'. (length (smart_contracts s'), transactions s', blocks s'))
        (left (deploy_smart_contract e name code chain s)) =
      Some (length (smart_contracts s) + 1, transactions s, blocks s)"
    by (simp add: d k)
next
  show "deploy_options = [''besu'']" by (simp add: deploy_options_def)
qed

theorem deploy_on_any_network_witness:
  "blocks session0 ''fabric'' \<noteq> None \<and> blocks session0 ''fabric'' \<noteq> Some [] \<and>
   raised deployed_fabric = None \<and>
   deployed_fabric = Some (Returned contract_fabric session_deployed) \<and>
   sc_blockchain contract_fabric = ''fabric'' \<and>
   smart_contracts session_deployed = smart_contracts session0 @ [contract_fabric] \<and>
   blocks session0 ''polygon'' = None \<and>
   raised (deploy_smart_contract env0 ''Token'' ''contract Token {}'' ''polygon'' session0) =
     Some KeyError \<and>
   map_option (\<lambda>s'. length (smart_contracts s'))
     (left (deploy_smart_contract env0 ''Token'' ''contract Token {}'' ''polygon'' session0)) = Some 1"
proof -
  have f: "blocks session0 ''fabric'' =
      Some [\<lparr>b_index = 0, b_timestamp = ''2025-01-15T10:30:01.120002'',
            b_transactions = [], previous_hash = ''0'',
            b_hash = ''fa95d9f08696ef76d6e7a22021c10c4ec0e41a4ea53e025abb9238043a6b2294'',
            nonce = 0, miner = ''System''\<rparr>]"
    by (simp add: session0_eval)
  have p: "blocks session0 ''polygon'' = None" by (simp add: session0_eval)
  have c0: "smart_contracts session0 = []" by (simp add: session0_eval)
  have d: "deploy_smart_contract env0 ''Token'' ''contract Token {}'' ''fabric'' session0 =
      Some (Returned contract_fabric session_deployed)"
    using deployed_fabric_eval by (simp add: deployed_fabric_def)
  from deploy_on_any_network[of session0 "''fabric''" _ env0 "''Token''" "''contract Token {}''"
      contract_fabric session_deployed] f d
  have 1: "raised deployed_fabric = None \<and> sc_blockchain contract_fabric = ''fabric'' \<and>
      smart_contracts session_deployed = smart_contracts session0 @ [contract_fabric]"
    by (simp add: deployed_fabric_def)
  from deploy_on_any_network[of session0 "''polygon''" _ env0 "''Token''" "''contract Token {}''"] p
  have 2: "raised (deploy_smart_contract env0 ''Token'' ''contract Token {}'' ''polygon'' session0) =
     Some KeyError \<and>
     map_option (\<lambda>s'. (length (smart_contracts s'), transactions s', blocks s'))
        (left (deploy_smart_contract env0 ''Token'' ''contract Token {}'' ''polygon'' session0)) =
      Some (length (smart_contracts session0) + 1, transactions session0, blocks session0)"
    by simp
  then have 3: "map_option (\<lambda>s'. length (smart_contracts s'))
     (left (deploy_smart_contract env0 ''Token'' ''contract Token {}'' ''polygon'' session0)) = Some 1"
    by (cases "left (deploy_smart_contract env0 ''Token'' ''contract Token {}'' ''polygon'' session0)")
       (simp_all add: c0)
  show ?thesis using 1 2 3 f p deployed_fabric_eval by simp
qed

text \<open>
  A deployment on the permissioned network in the fresh session of the concrete
  environment: the call returns a contract, and leaves it registered, with one
  transaction recorded and a second block on that network's chain.
\<close>

theorem deploy_fabric_accepted:
  "deployed_fabric = Some (Returned contract_fabric session_deployed) \<and>
   raised deployed_fabric = None \<and>
   sc_blockchain contract_fabric = ''fabric'' \<and>
   smart_contracts session0 = [] \<and> smart_contracts session_deployed = [contract_fabric] \<and>
   transactions session0 = [] \<and> transactions session_deployed = [deploy_tx] \<and>
   map_option length (blocks session0 ''fabric'') = Some 1 \<and>
   map_option length (blocks session_deployed ''fabric'') = Some 2 \<and>
   map_option last (blocks session_deployed ''fabric'') = Some block_deployed"
  by (simp add: deployed_fabric_eval contract_fabric_def session_deployed_def session0_eval)

text \<open>
  C6, as the code has it. \<^verbatim>\<open>bridge_asset\<close> does not compare the two networks; only
  the bridge page leaves the source out of the destinations it offers. With the source
  as destination, for every network key whose chain is present and not empty the call
  raises nothing, and when it returns, the transfer it returns, from the network to
  itself, is appended to the transfers. For a key that has no chain the call raises
  \<^verbatim>\<open>KeyError\<close>, after the transfer was appended.
\<close>

theorem bridge_to_same_network:
  "(blocks s n = Some bs \<and> bs \<noteq> [] \<longrightarrow> raised (bridge_asset e a n n amt s) = None) \<and>
   (bridge_asset e a n n amt s = Some (Returned t s') \<longrightarrow>
      from_chain t = n \<and> to_chain t = n \<and> asset t = a \<and> amount t = amt \<and>
      bridge_transfers s' = bridge_transfers s @ [t]) \<and>
   (blocks s n = None \<longrightarrow>
      raised (bridge_asset e a n n amt s) = Some KeyError \<and>
      map_option (\<lambda>s'. length (bridge_transfers s')) (left (bridge_asset e a n n amt s)) =
      Some (length (bridge_transfers s) + 1)) \<and>
   n \<notin> set (dest_options n)"
proof (intro conjI impI)
  assume a: "blocks s n = Some bs \<and> bs \<noteq> []"
  show "raised (bridge_asset e a n n amt s) = None"
  proof (cases "bridge_asset e a n n amt s")
    case None
    then show ?thesis by simp
  next
    case (Some r)
    show ?thesis
    proof (cases r)
      case (Returned t0 s0)
      with Some show ?thesis by simp
    next
      case (Raised err s0)
      with Some bridge_asset_RaisedD[of e a n n amt s err s0] a show ?thesis by auto
    qed
  qed
next
  assume r: "bridge_asset e a n n amt s = Some (Returned t s')"
  from bridge_asset_ReturnedD[OF r]
  show "from_chain t = n" and "to_chain t = n" and "asset t = a" and "amount t = amt"
    and "bridge_transfers s' = bridge_transfers s @ [t]"
    by auto
next
  assume n: "blocks s n = None"
  from bridge_unknown_chain[OF n, of e a n amt]
  obtain s0 where d: "bridge_asset e a n n amt s = Some (Raised KeyError s0)"
    and k: "length (bridge_transfers s0) = length (bridge_transfers s) + 1"
    by blast
  show "raised (bridge_asset e a n n amt s) = Some KeyError" by (simp add: d)
  show "map_option (\<lambda>s'. length (bridge_transfers s')) (left (bridge_asset e a n n amt s)) =
      Some (length (bridge_transfers s) + 1)"
    by (simp add: d k)
next
  show "n \<notin> set (dest_options n)" by (simp add: dest_options_def)
qed

theorem bridge_to_same_network_witness:
  "blocks session0 ''besu'' = Some [genesis_besu] \<and>
   raised bridged_same = None \<and>
   bridged_same = Some (Returned transfer_same session_bridged_same) \<and>
   from_chain transfer_same = ''besu'' \<and> to_chain transfer_same = ''besu'' \<and>
   bridge_transfers session_bridged_same = bridge_transfers session0 @ [transfer_same] \<and>
   blocks session0 ''polygon'' = None \<and>
   raised (bridge_asset env0 ''NFT-72961'' ''polygon'' ''polygon'' (PInt 1) session0) = Some KeyError \<and>
   map_option (\<lambda>s'. length (bridge_transfers s'))
     (left (bridge_asset env0 ''NFT-72961'' ''polygon'' ''polygon'' (PInt 1) session0)) = Some 1"
proof -
  have p: "blocks session0 ''polygon'' = None" by (simp add: session0_eval)
  have t0: "bridge_transfers session0 = []" by (simp add: session0_eval)
  have d: "bridge_asset env0 ''NFT-72961'' ''besu'' ''besu'' (PInt 1) session0 =
      Some (Returned transfer_same session_bridged_same)"
    using bridged_same_eval by (simp add: bridged_same_def)
  from bridge_to_same_network[of session0 "''besu''" "[genesis_besu]" env0 "''NFT-72961''" "PInt 1"
      transfer_same session_bridged_same] besu_chain0 d
  have 1: "raised bridged_same = None \<and> from_chain transfer_same = ''besu'' \<and>
      to_chain transfer_same = ''besu'' \<and>
      bridge_transfers session_bridged_same = bridge_transfers session0 @ [transfer_same]"
    by (simp add: bridged_same_def)
  from bridge_to_same_network[of session0 "''polygon''" _ env0 "''NFT-72961''" "PInt 1"] p
  have 2: "raised (bridge_asset env0 ''NFT-72961'' ''polygon'' ''polygon'' (PInt 1) session0) = Some KeyError \<and>
     map_option (\<lambda>s'. length (bridge_transfers s'))
       (left (bridge_asset env0 ''NFT-72961'' ''polygon'' ''polygon'' (PInt 1) session0)) =
     Some (length (bridge_transfers session0) + 1)"
    by simp
  show ?thesis using 1 2 p besu_chain0 bridged_same_eval by (simp add: t0)
qed

text \<open>
  A transfer from the EVM chain to itself in the fresh session of the concrete
  environment: the call returns the transfer and leaves it among the transfers.
\<close>

theorem bridge_same_accepted:
  "bridged_same = Some (Returned transfer_same session_bridged_same) \<and>
   raised bridged_same = None \<and>
   from_chain transfer_same = ''besu'' \<and> to_chain transfer_same = ''besu'' \<and>
   bridge_transfers session0 = [] \<and>
   bridge_transfers session_bridged_same = [transfer_same] \<and>
   transactions session_bridged_same = [lock_tx_same] \<and>
   map_option length (blocks session_bridged_same ''besu'') = Some 2"
  by (simp add: bridged_same_eval transfer_same_def session_bridged_same_def session0_eval)

text \<open>
  C7. For two distinct networks and every asset and amount, when \<^verbatim>\<open>bridge_asset\<close>
  returns, it has appended exactly one transfer, the one it returns, with no
  confirmation, ten required confirmations and the status \<^verbatim>\<open>Processing\<close>; it has
  recorded exactly one transaction, of type \<^verbatim>\<open>Bridge Lock\<close>, with \<^verbatim>\<open>gas_used\<close> 75000,
  for the source network; and it has appended exactly one block, which holds that
  transaction alone, to the chain of the source network. The other chains, the
  destination's among them, the contracts and the files are as before.
\<close>

theorem bridge_initiation:
  assumes "from_c \<noteq> to_c"
    and "bridge_asset e a from_c to_c amt s = Some (Returned t s')"
  shows "\<exists>bs tx b. blocks s from_c = Some bs \<and>
     bridge_transfers s' = bridge_transfers s @ [t] \<and>
     confirmations t = 0 \<and> required_confirmations t = 10 \<and> br_status t = ''Processing'' \<and>
     asset t = a \<and> from_chain t = from_c \<and> to_chain t = to_c \<and> amount t = amt \<and>
     transactions s' = transactions s @ [tx] \<and>
     tx_type tx = ''Bridge Lock'' \<and> gas_used tx = 75000 \<and> tx_blockchain tx = from_c \<and>
     blocks s' = (blocks s)(from_c \<mapsto> bs @ [b]) \<and> b_transactions b = [tx] \<and>
     b_index b = length bs \<and>
     blocks s' to_c = blocks s to_c \<and>
     smart_contracts s' = smart_contracts s \<and> files s' = files s"
proof -
  from bridge_asset_ReturnedD[OF assms(2)] obtain bs tx b where
    k: "blocks s from_c = Some bs"
      "t = \<lparr>br_id = uuid4 e (uuid_draws s), asset = a, from_chain = from_c, to_chain = to_c,
           amount = amt, br_status = ''Processing'',
           br_timestamp = isoformat (now e (clock_reads s)),
           confirmations = 0, required_confirmations = 10\<rparr>"
      "tx_type tx = ''Bridge Lock''" "gas_used tx = 75000" "tx_blockchain tx = from_c"
      "bridge_transfers s' = bridge_transfers s @ [t]"
      "transactions s' = transactions s @ [tx]"
      "blocks s' = (blocks s)(from_c \<mapsto> bs @ [b])" "b_transactions b = [tx]"
      "b_index b = length bs"
      "smart_contracts s' = smart_contracts s" "files s' = files s"
    by blast
  from k(8) assms(1) have "blocks s' to_c = blocks s to_c" by simp
  moreover from k(2) have "confirmations t = 0" "required_confirmations t = 10"
    "br_status t = ''Processing''" "asset t = a" "from_chain t = from_c" "to_chain t = to_c"
    "amount t = amt" by simp_all
  ultimately show ?thesis using k by blast
qed

theorem bridge_initiation_witness:
  "bridge_asset env0 ''KZT_100'' ''besu'' ''fabric'' (PInt 100) session0 =
     Some (Returned transfer0 session_bridged0) \<and>
   confirmations transfer0 = 0 \<and> required_confirmations transfer0 = 10 \<and>
   br_status transfer0 = ''Processing'' \<and> amount transfer0 = PInt 100 \<and>
   bridge_transfers session_bridged0 = bridge_transfers session0 @ [transfer0] \<and>
   transactions session_bridged0 = [lock_tx0] \<and> gas_used lock_tx0 = 75000 \<and>
   tx_type lock_tx0 = ''Bridge Lock'' \<and> tx_blockchain lock_tx0 = ''besu'' \<and>
   blocks session_bridged0 ''besu'' = Some [genesis_besu, block_bridged0] \<and>
   b_transactions block_bridged0 = [lock_tx0] \<and>
   blocks session_bridged0 ''fabric'' = blocks session0 ''fabric''"
proof -
  have d: "bridge_asset env0 ''KZT_100'' ''besu'' ''fabric'' (PInt 100) session0 =
      Some (Returned transfer0 session_bridged0)"
    using bridged0_eval by (simp add: bridged0_def)
  have ne: "''besu'' \<noteq> ''fabric''" by simp
  from bridge_initiation[OF ne d]
  have "confirmations transfer0 = 0 \<and> required_confirmations transfer0 = 10 \<and>
     br_status transfer0 = ''Processing'' \<and> amount transfer0 = PInt 100 \<and>
     bridge_transfers session_bridged0 = bridge_transfers session0 @ [transfer0] \<and>
     blocks session_bridged0 ''fabric'' = blocks session0 ''fabric''"
    by blast
  moreover have "transactions session_bridged0 = [lock_tx0]"
    "blocks session_bridged0 ''besu'' = Some [genesis_besu, block_bridged0]"
    by (simp_all add: session_bridged0_def besu_chain0)
  moreover have "gas_used lock_tx0 = 75000" "tx_type lock_tx0 = ''Bridge Lock''"
    "tx_blockchain lock_tx0 = ''besu''" "b_transactions block_bridged0 = [lock_tx0]"
    by (simp_all add: lock_tx0_def block_bridged0_def)
  ultimately show ?thesis using d by simp
qed



text \<open>
  C9, as the code has it. Two calls of \<^verbatim>\<open>upload_file_to_blockchain\<close> with the same
  bytes, each read from the start of its file object, on any two networks and with any
  operations between them, where both return: the two records have the same hash, which
  is the SHA-256 digest of all the bytes, and the size is the number of the bytes. The
  \<^verbatim>\<open>file_id\<close> of each record is the identifier that \<^verbatim>\<open>uuid4\<close> gave at the second draw of
  its call; these are two different draws, so the two \<^verbatim>\<open>file_id\<close>s differ exactly when
  the two identifiers drawn differ, as they do when all the identifiers drawn are
  distinct; the code does not compare them. On a network whose chain is present and not
  empty a call returns exactly when some nonce is accepted for the block of its
  transaction, never returns exactly when none is, and raises nothing; for a network
  key that has no chain it raises \<^verbatim>\<open>KeyError\<close>.
\<close>

theorem anchoring_same_bytes:
  "(upload_file_to_blockchain e f1 c1 s = Some (Returned (r1, f1') s1) \<and>
    run e xs s1 = Some s2 \<and>
    upload_file_to_blockchain e f2 c2 s2 = Some (Returned (r2, f2') s3) \<and>
    up_content f1 = up_content f2 \<and> up_pos f1 = 0 \<and> up_pos f2 = 0 \<longrightarrow>
      fr_hash r1 = fr_hash r2 \<and> fr_hash r1 = hexdigest (sha256 (up_content f1)) \<and>
      fr_size r1 = length (up_content f1) \<and> fr_size r2 = length (up_content f1) \<and>
      file_id r1 = uuid4 e (uuid_draws s + 1) \<and> file_id r2 = uuid4 e (uuid_draws s2 + 1) \<and>
      uuid_draws s + 1 < uuid_draws s2 + 1 \<and> uuid_draws s2 + 1 < uuid_draws s3 \<and>
      (file_id r1 = file_id r2 \<longleftrightarrow> uuid4 e (uuid_draws s + 1) = uuid4 e (uuid_draws s2 + 1)) \<and>
      (distinct (map (uuid4 e) [0..<uuid_draws s3]) \<longrightarrow> file_id r1 \<noteq> file_id r2)) \<and>
   (blocks s c1 = Some bs \<and> bs \<noteq> [] \<longrightarrow>
      (\<exists>tx. tx_type tx = ''File Upload'' \<and> tx_blockchain tx = c1 \<and> gas_used tx = 50000 \<and>
         (returned (upload_file_to_blockchain e f1 c1 s) \<noteq> None \<longleftrightarrow>
            (\<exists>n. valid_nonce (length bs) (isoformat (now e (clock_reads s + 2))) [tx]
                   (b_hash (last bs)) n)) \<and>
         (upload_file_to_blockchain e f1 c1 s = None \<longleftrightarrow>
            (\<forall>n. \<not> valid_nonce (length bs) (isoformat (now e (clock_reads s + 2))) [tx]
                   (b_hash (last bs)) n)) \<and>
         raised (upload_file_to_blockchain e f1 c1 s) = None)) \<and>
   (blocks s c1 = None \<longrightarrow> raised (upload_file_to_blockchain e f1 c1 s) = Some KeyError)"
proof (intro conjI)
  show "upload_file_to_blockchain e f1 c1 s = Some (Returned (r1, f1') s1) \<and>
    run e xs s1 = Some s2 \<and>
    upload_file_to_blockchain e f2 c2 s2 = Some (Returned (r2, f2') s3) \<and>
    up_content f1 = up_content f2 \<and> up_pos f1 = 0 \<and> up_pos f2 = 0 \<longrightarrow>
      fr_hash r1 = fr_hash r2 \<and> fr_hash r1 = hexdigest (sha256 (up_content f1)) \<and>
      fr_size r1 = length (up_content f1) \<and> fr_size r2 = length (up_content f1) \<and>
      file_id r1 = uuid4 e (uuid_draws s + 1) \<and> file_id r2 = uuid4 e (uuid_draws s2 + 1) \<and>
      uuid_draws s + 1 < uuid_draws s2 + 1 \<and> uuid_draws s2 + 1 < uuid_draws s3 \<and>
      (file_id r1 = file_id r2 \<longleftrightarrow> uuid4 e (uuid_draws s + 1) = uuid4 e (uuid_draws s2 + 1)) \<and>
      (distinct (map (uuid4 e) [0..<uuid_draws s3]) \<longrightarrow> file_id r1 \<noteq> file_id r2)"
  proof
    assume h: "upload_file_to_blockchain e f1 c1 s = Some (Returned (r1, f1') s1) \<and>
      run e xs s1 = Some s2 \<and>
      upload_file_to_blockchain e f2 c2 s2 = Some (Returned (r2, f2') s3) \<and>
      up_content f1 = up_content f2 \<and> up_pos f1 = 0 \<and> up_pos f2 = 0"
    then have u1: "upload_file_to_blockchain e f1 c1 s = Some (Returned (r1, f1') s1)"
      and r: "run e xs s1 = Some s2"
      and u2: "upload_file_to_blockchain e f2 c2 s2 = Some (Returned (r2, f2') s3)"
      and same: "up_content f1 = up_content f2" and p1: "up_pos f1 = 0" and p2: "up_pos f2 = 0"
      by simp_all
    from upload_ReturnedD[OF u1] p1
    have a: "file_id r1 = uuid4 e (uuid_draws s + 1)"
      "fr_hash r1 = hexdigest (sha256 (up_content f1))" "fr_size r1 = length (up_content f1)"
      "uuid_draws s1 = uuid_draws s + 3"
      by auto
    from upload_ReturnedD[OF u2] p2
    have b: "file_id r2 = uuid4 e (uuid_draws s2 + 1)"
      "fr_hash r2 = hexdigest (sha256 (up_content f2))" "fr_size r2 = length (up_content f2)"
      "uuid_draws s3 = uuid_draws s2 + 3"
      by auto
    from run_kept[OF r] have m: "uuid_draws s1 \<le> uuid_draws s2" by simp
    have lt1: "uuid_draws s + 1 < uuid_draws s2 + 1" using m a(4) by simp
    have lt2: "uuid_draws s2 + 1 < uuid_draws s3" using b(4) by simp
    have ne: "file_id r1 \<noteq> file_id r2" if d: "distinct (map (uuid4 e) [0..<uuid_draws s3])"
      unfolding a(1) b(1) using d lt1 lt2 by (rule distinct_draws)
    show "fr_hash r1 = fr_hash r2 \<and> fr_hash r1 = hexdigest (sha256 (up_content f1)) \<and>
      fr_size r1 = length (up_content f1) \<and> fr_size r2 = length (up_content f1) \<and>
      file_id r1 = uuid4 e (uuid_draws s + 1) \<and> file_id r2 = uuid4 e (uuid_draws s2 + 1) \<and>
      uuid_draws s + 1 < uuid_draws s2 + 1 \<and> uuid_draws s2 + 1 < uuid_draws s3 \<and>
      (file_id r1 = file_id r2 \<longleftrightarrow> uuid4 e (uuid_draws s + 1) = uuid4 e (uuid_draws s2 + 1)) \<and>
      (distinct (map (uuid4 e) [0..<uuid_draws s3]) \<longrightarrow> file_id r1 \<noteq> file_id r2)"
      using a b same lt1 lt2 ne by simp
  qed
next
  show "blocks s c1 = Some bs \<and> bs \<noteq> [] \<longrightarrow>
      (\<exists>tx. tx_type tx = ''File Upload'' \<and> tx_blockchain tx = c1 \<and> gas_used tx = 50000 \<and>
         (returned (upload_file_to_blockchain e f1 c1 s) \<noteq> None \<longleftrightarrow>
            (\<exists>n. valid_nonce (length bs) (isoformat (now e (clock_reads s + 2))) [tx]
                   (b_hash (last bs)) n)) \<and>
         (upload_file_to_blockchain e f1 c1 s = None \<longleftrightarrow>
            (\<forall>n. \<not> valid_nonce (length bs) (isoformat (now e (clock_reads s + 2))) [tx]
                   (b_hash (last bs)) n)) \<and>
         raised (upload_file_to_blockchain e f1 c1 s) = None)"
  proof
    assume "blocks s c1 = Some bs \<and> bs \<noteq> []"
    then have "blocks s c1 = Some bs" and "bs \<noteq> []" by simp_all
    then show "\<exists>tx. tx_type tx = ''File Upload'' \<and> tx_blockchain tx = c1 \<and> gas_used tx = 50000 \<and>
         (returned (upload_file_to_blockchain e f1 c1 s) \<noteq> None \<longleftrightarrow>
            (\<exists>n. valid_nonce (length bs) (isoformat (now e (clock_reads s + 2))) [tx]
                   (b_hash (last bs)) n)) \<and>
         (upload_file_to_blockchain e f1 c1 s = None \<longleftrightarrow>
            (\<forall>n. \<not> valid_nonce (length bs) (isoformat (now e (clock_reads s + 2))) [tx]
                   (b_hash (last bs)) n)) \<and>
         raised (upload_file_to_blockchain e f1 c1 s) = None"
      by (rule upload_returns_iff)
  qed
next
  show "blocks s c1 = None \<longrightarrow> raised (upload_file_to_blockchain e f1 c1 s) = Some KeyError"
  proof
    assume n: "blocks s c1 = None"
    from upload_unknown_chain[OF n, of e f1] obtain s0 where
      "upload_file_to_blockchain e f1 c1 s = Some (Raised KeyError s0)" by blast
    then show "raised (upload_file_to_blockchain e f1 c1 s) = Some KeyError" by simp
  qed
qed

theorem anchoring_same_bytes_witness:
  "upload_file_to_blockchain env0 hello ''besu'' session0 =
     Some (Returned (file_record1, hello_read) session_uploaded1) \<and>
   run env0 [] session_uploaded1 = Some session_uploaded1 \<and>
   upload_file_to_blockchain env0 hello ''fabric'' session_uploaded1 =
     Some (Returned (file_record2, hello_read) session_uploaded2) \<and>
   fr_hash file_record1 = fr_hash file_record2 \<and>
   fr_hash file_record1 = hexdigest (sha256 ''hello'') \<and>
   fr_hash file_record1 = ''2cf24dba5fb0a30e26e83b2ac5b9e29e1b161e5c1fa7425e73043362938b9824'' \<and>
   fr_size file_record1 = 5 \<and>
   distinct (map (uuid4 env0) [0..<uuid_draws session_uploaded2]) \<and>
   file_id file_record1 \<noteq> file_id file_record2 \<and>
   blocks session0 ''besu'' = Some [genesis_besu] \<and>
   raised (upload_file_to_blockchain env0 hello ''besu'' session0) = None \<and>
   blocks session0 ''polygon'' = None \<and>
   raised (upload_file_to_blockchain env0 hello ''polygon'' session0) = Some KeyError"
proof -
  have u1: "upload_file_to_blockchain env0 hello ''besu'' session0 =
     Some (Returned (file_record1, hello_read) session_uploaded1)"
    using uploaded1_eval by (simp add: uploaded1_def)
  have u2: "upload_file_to_blockchain env0 hello ''fabric'' session_uploaded1 =
     Some (Returned (file_record2, hello_read) session_uploaded2)"
    using uploaded2_eval by (simp add: uploaded2_def uploaded1_eval)
  have r: "run env0 [] session_uploaded1 = Some session_uploaded1" by simp
  have d: "distinct (map (uuid4 env0) [0..<uuid_draws session_uploaded2])"
    by (simp add: session_uploaded2_def env0_def uuids0_def upt_conv_Cons)
  have hc: "up_content hello = ''hello''" and hp: "up_pos hello = 0"
    by (simp_all add: hello_def)
  have pg: "blocks session0 ''polygon'' = None" by (simp add: session0_eval)
  have ne: "[genesis_besu] \<noteq> []" by simp
  note t = anchoring_same_bytes[of env0 hello "''besu''" session0 file_record1 hello_read
      session_uploaded1 "[]" session_uploaded1 hello "''fabric''" file_record2 hello_read
      session_uploaded2 "[genesis_besu]"]
  from t u1 r u2 hp
  have c: "fr_hash file_record1 = fr_hash file_record2 \<and>
      fr_hash file_record1 = hexdigest (sha256 (up_content hello)) \<and>
      (distinct (map (uuid4 env0) [0..<uuid_draws session_uploaded2]) \<longrightarrow>
         file_id file_record1 \<noteq> file_id file_record2)"
    by blast
  from c[unfolded hc] d have c1: "fr_hash file_record1 = fr_hash file_record2"
    and c2: "fr_hash file_record1 = hexdigest (sha256 ''hello'')"
    and c3: "file_id file_record1 \<noteq> file_id file_record2"
    by blast+
  from t besu_chain0 ne
  have c4: "raised (upload_file_to_blockchain env0 hello ''besu'' session0) = None"
    by blast
  from anchoring_same_bytes[of env0 hello "''polygon''" session0] pg
  have c5: "raised (upload_file_to_blockchain env0 hello ''polygon'' session0) = Some KeyError"
    by blast
  have c6: "fr_hash file_record1 = ''2cf24dba5fb0a30e26e83b2ac5b9e29e1b161e5c1fa7425e73043362938b9824''"
    by (simp add: file_record1_def)
  have c7: "fr_size file_record1 = 5" by (simp add: file_record1_def)
  show ?thesis
    by (intro conjI) (rule u1 r u2 c1 c2 c6 c7 d c3 besu_chain0 c4 pg c5)+
qed

text \<open>
  The same five bytes anchored twice in the fresh session of the environment whose
  \<^verbatim>\<open>uuid4\<close> always gives the same identifier: both calls return, and the two records
  have the same \<^verbatim>\<open>file_id\<close>.
\<close>

theorem same_bytes_same_file_id:
  "init_session_state env1 = session0 \<and>
   anchored_a = upload_file_to_blockchain env1 copy_a ''besu'' session0 \<and>
   anchored_a = Some (Returned (file_record_a, copy_a_read) session_anchored_a) \<and>
   anchored_b = upload_file_to_blockchain env1 copy_b ''fabric'' session_anchored_a \<and>
   anchored_b = Some (Returned (file_record_b, copy_b_read) session_anchored_b) \<and>
   up_content copy_a = up_content copy_b \<and> up_pos copy_a = 0 \<and> up_pos copy_b = 0 \<and>
   file_id file_record_a = ''3f2b8c1e-5d4a-4e6f-9a7b-1c2d3e4f5a6b'' \<and>
   file_id file_record_b = ''3f2b8c1e-5d4a-4e6f-9a7b-1c2d3e4f5a6b'' \<and>
   file_id file_record_a = file_id file_record_b \<and>
   fr_hash file_record_a = fr_hash file_record_b \<and>
   files session_anchored_b = [file_record_a, file_record_b]"
proof -
  have v: "up_content copy_a = up_content copy_b" "up_pos copy_a = 0" "up_pos copy_b = 0"
    "file_id file_record_a = ''3f2b8c1e-5d4a-4e6f-9a7b-1c2d3e4f5a6b''"
    "file_id file_record_b = ''3f2b8c1e-5d4a-4e6f-9a7b-1c2d3e4f5a6b''"
    "file_id file_record_a = file_id file_record_b"
    "fr_hash file_record_a = fr_hash file_record_b"
    "files session_anchored_b = [file_record_a, file_record_b]"
    by (simp_all add: copy_a_def copy_b_def file_record_a_def file_record_b_def
        session_anchored_b_def)
  show ?thesis
    by (intro conjI)
       (rule init_env1 anchored_a_call anchored_a_eval anchored_b_call anchored_b_eval v)+
qed

text \<open>
  C10, as the code has it. The block that \<^verbatim>\<open>mine_block\<close> returns, which is the block
  appended to the chain, has as its miner the first ten characters of the wallet
  address followed by three dots; the full address stays in the wallet, which the call
  leaves as it is. In a session reached from a fresh one the address has 42 characters,
  so the miner field has 13 and is not the address.
\<close>

theorem miner_is_truncated_address:
  "(mine_block e chain txs s = Some (Returned b s') \<longrightarrow>
      miner b = take 10 (address (wallet s)) @ ''...'' \<and> wallet s' = wallet s \<and>
      map_option last (blocks s' chain) = Some b) \<and>
   (run e xs (init_session_state e) = Some s \<and> mine_block e chain txs s = Some (Returned b s') \<longrightarrow>
      length (address (wallet s)) = 42 \<and> length (miner b) = 13 \<and> miner b \<noteq> address (wallet s))"
proof (intro conjI impI)
  assume r: "mine_block e chain txs s = Some (Returned b s')"
  from r obtain bs where
    bs: "blocks s chain = Some bs" and ne: "bs \<noteq> []"
    and ml: "mine_loop (length bs) (isoformat (now e (clock_reads s))) txs (b_hash (last bs)) 0 =
           Some (b_hash b, nonce b)"
    and f: "b_index b = length bs" "b_timestamp b = isoformat (now e (clock_reads s))"
       "b_transactions b = txs" "previous_hash b = b_hash (last bs)"
    and mn: "miner b = take 10 (address (wallet s)) @ ''...''"
    and s': "s' = s\<lparr>clock_reads := clock_reads s + 1, blocks := (blocks s)(chain \<mapsto> bs @ [b])\<rparr>"
    by (rule mine_block_ReturnedE)
  show "miner b = take 10 (address (wallet s)) @ ''...''" by (rule mn)
  show "wallet s' = wallet s" by (simp add: s')
  show "map_option last (blocks s' chain) = Some b" by (simp add: s')
next
  assume a: "run e xs (init_session_state e) = Some s \<and> mine_block e chain txs s = Some (Returned b s')"
  then have r: "run e xs (init_session_state e) = Some s"
    and m: "mine_block e chain txs s = Some (Returned b s')" by simp_all
  from run_kept[OF r] have "wallet s = wallet (init_session_state e)" by simp
  then show l: "length (address (wallet s)) = 42" by (simp add: init_wallet_address)
  from m obtain bs where
    bs: "blocks s chain = Some bs" and ne: "bs \<noteq> []"
    and ml: "mine_loop (length bs) (isoformat (now e (clock_reads s))) txs (b_hash (last bs)) 0 =
           Some (b_hash b, nonce b)"
    and f: "b_index b = length bs" "b_timestamp b = isoformat (now e (clock_reads s))"
       "b_transactions b = txs" "previous_hash b = b_hash (last bs)"
    and mn: "miner b = take 10 (address (wallet s)) @ ''...''"
    and s': "s' = s\<lparr>clock_reads := clock_reads s + 1, blocks := (blocks s)(chain \<mapsto> bs @ [b])\<rparr>"
    by (rule mine_block_ReturnedE)
  from mn l show "length (miner b) = 13" by simp
  with l show "miner b \<noteq> address (wallet s)" by auto
qed

theorem miner_is_truncated_address_witness:
  "run env0 [] session0 = Some session0 \<and>
   mine_block env0 ''besu'' [] session0 = Some (Returned block1 session1) \<and>
   miner block1 = take 10 (address (wallet session0)) @ ''...'' \<and>
   wallet session1 = wallet session0 \<and>
   length (address (wallet session0)) = 42 \<and> length (miner block1) = 13 \<and>
   miner block1 \<noteq> address (wallet session0)"
proof -
  have r: "run env0 [] (init_session_state env0) = Some session0" by (simp add: session0_def)
  from miner_is_truncated_address[of env0 "''besu''" "[]" session0 block1 session1 "[]"] r mined0_call
  have "miner block1 = take 10 (address (wallet session0)) @ ''...'' \<and>
      wallet session1 = wallet session0 \<and>
      length (address (wallet session0)) = 42 \<and> length (miner block1) = 13 \<and>
      miner block1 \<noteq> address (wallet session0)"
    by blast
  moreover have "run env0 [] session0 = Some session0" by simp
  ultimately show ?thesis using mined0_call by blast
qed

text \<open>
  The block mined in the fresh session of the concrete environment: its miner field is
  the thirteen characters \<^verbatim>\<open>0x3f60c6d5...\<close>, the wallet address has 42.
\<close>

theorem miner_field_not_address:
  "returned mined0 = Some block1 \<and>
   miner block1 = ''0x3f60c6d5...'' \<and>
   address (wallet session0) = ''0x3f60c6d52d2ee1fcdec8d315e543582f79a39c97'' \<and>
   miner block1 \<noteq> address (wallet session0) \<and>
   map_option (map miner) (blocks session1 ''besu'') = Some [''System'', ''0x3f60c6d5...'']"
  by (simp add: mined0_eval block1_def session1_def session0_eval)

end
